theory Spec2Isabelle
  imports Main "HOL-Library.AList"
begin

section \<open>Python values used by the provider\<close>

text \<open>
  Strings are byte strings (\<open>char list\<close>); the character classes below are the ASCII
  part of Python's. Exceptions are values: a function that can raise returns
  \<open>exn + 'a\<close>, with \<open>Inl\<close> the exception, and each \<^verbatim>\<open>try/except\<close> of the
  source is a case distinction on the exception's class.
\<close>

datatype exn =
    ValueError string
  | TypeError string
  | AttributeError string
  | RequestException string
  | InvalidSignatureError string
  | Exception string

fun str_of_exn :: "exn \<Rightarrow> string" where
  "str_of_exn (ValueError m) = m"
| "str_of_exn (TypeError m) = m"
| "str_of_exn (AttributeError m) = m"
| "str_of_exn (RequestException m) = m"
| "str_of_exn (InvalidSignatureError m) = m"
| "str_of_exn (Exception m) = m"

datatype json =
    JNull
  | JBool bool
  | JNum int
  | JStr string
  | JArr "json list"
  | JObj "(string \<times> json) list"

definition isdigit :: "char \<Rightarrow> bool" where
  "isdigit c = (c \<in> set ''0123456789'')"

definition isspace :: "char \<Rightarrow> bool" where
  "isspace c = (c \<in> set [CHR '' '', CHR 0x09, CHR 0x0A, CHR 0x0B, CHR 0x0C, CHR 0x0D,
                           CHR 0x1C, CHR 0x1D, CHR 0x1E, CHR 0x1F])"

text \<open>\<^verbatim>\<open>str.isnumeric()\<close>: at least one character, all of them numeric.\<close>

definition isnumeric :: "string \<Rightarrow> bool" where
  "isnumeric s = (s \<noteq> [] \<and> list_all isdigit s)"

text \<open>\<^verbatim>\<open>str.strip()\<close>.\<close>

definition strip :: "string \<Rightarrow> string" where
  "strip s = rev (dropWhile isspace (rev (dropWhile isspace s)))"

text \<open>\<^verbatim>\<open>str.lower()\<close> on ASCII letters.\<close>

definition lower_char :: "char \<Rightarrow> char" where
  "lower_char c =
     (case map_of (zip ''ABCDEFGHIJKLMNOPQRSTUVWXYZ'' ''abcdefghijklmnopqrstuvwxyz'') c of
        Some l \<Rightarrow> l
      | None \<Rightarrow> c)"

definition lower :: "string \<Rightarrow> string" where
  "lower s = map lower_char s"

text \<open>\<^verbatim>\<open>s.split(sep)\<close> for a one-character separator: never the empty list.\<close>

fun split :: "char \<Rightarrow> string \<Rightarrow> string list" where
  "split sep [] = [[]]"
| "split sep (c # cs) =
     (if c = sep then [] # split sep cs
      else (case split sep cs of
              [] \<Rightarrow> [[c]]
            | w # ws \<Rightarrow> (c # w) # ws))"

text \<open>A dictionary with string keys, in insertion order; \<^verbatim>\<open>d.get(k)\<close> is \<open>map_of d k\<close>.\<close>

type_synonym 'v dict = "(string \<times> 'v) list"

text \<open>\<^verbatim>\<open>d.update(e)\<close>.\<close>

definition dict_update :: "'v dict \<Rightarrow> 'v dict \<Rightarrow> 'v dict" where
  "dict_update d e = fold (\<lambda>(k, v). AList.update k v) e d"

text \<open>Truth value of an optional string: \<^verbatim>\<open>None\<close> and \<^verbatim>\<open>""\<close> are false.\<close>

fun truthy :: "string option \<Rightarrow> bool" where
  "truthy None = False"
| "truthy (Some s) = (s \<noteq> [])"

text \<open>An optional string inside an f-string: \<^verbatim>\<open>None\<close> prints as \<^verbatim>\<open>None\<close>.\<close>

fun fmt :: "string option \<Rightarrow> string" where
  "fmt None = ''None''"
| "fmt (Some s) = s"

section \<open>The standard library's \<^verbatim>\<open>urlparse\<close>: scheme and network location\<close>

text \<open>
  \<^verbatim>\<open>urllib.parse.urlparse\<close> as far as the two components read by the provider,
  following \<^verbatim>\<open>urlsplit\<close> of CPython 3.8: the text before the first colon is the scheme
  when it is made of scheme characters (and what follows is not a port number), the
  network location is what follows a leading \<^verbatim>\<open>//\<close> up to the first of
  \<^verbatim>\<open>/ ? #\<close>, and unbalanced square brackets raise \<^verbatim>\<open>ValueError\<close>. The check of
  non-ASCII network locations (\<^verbatim>\<open>_checknetloc\<close>) and the stripping of control characters
  of later versions are left out; on the URLs named in the theorems below every version
  gives the same two components.
\<close>

record parse_result =
  scheme :: string
  netloc :: string

definition scheme_chars :: string where
  "scheme_chars =
     ''abcdefghijklmnopqrstuvwxyzABCDEFGHIJKLMNOPQRSTUVWXYZ0123456789+-.''"

definition splitnetloc :: "string \<Rightarrow> string" where
  "splitnetloc u = takeWhile (\<lambda>c. c \<notin> set ''/?#'') (drop 2 u)"

definition urlparse :: "string \<Rightarrow> exn + parse_result" where
  "urlparse u =
     (let pre = takeWhile (\<lambda>c. c \<noteq> CHR '':'') u;
          rest = drop (length pre + 1) u;
          is_scheme = (CHR '':'' \<in> set u \<and> pre \<noteq> [] \<and>
             (pre = ''http'' \<or>
              (list_all (\<lambda>c. c \<in> set scheme_chars) pre \<and>
               (rest = [] \<or> \<not> list_all isdigit rest))));
          sch = (if is_scheme then lower pre else []);
          u' = (if is_scheme then rest else u);
          loc = (if take 2 u' = ''//'' then splitnetloc u' else [])
      in if (CHR ''['' \<in> set loc \<and> CHR '']'' \<notin> set loc) \<or>
            (CHR '']'' \<in> set loc \<and> CHR ''['' \<notin> set loc)
         then Inl (ValueError ''Invalid IPv6 URL'')
         else Inr \<lparr>scheme = sch, netloc = loc\<rparr>)"

section \<open>What lies outside the repository\<close>

text \<open>
  The configuration, the DNS resolver, the network and the library functions whose
  tables or algorithms are not part of the repository are the fields of one record;
  every definition below takes it as its first argument, and every theorem holds for
  all of its values.

  \<^item> \<open>resolve domain record_type\<close> is \<^verbatim>\<open>dns.resolver.Resolver().resolve\<close>: the
    \<^verbatim>\<open>to_text()\<close> of each record of the answer, or the exception it raises
    (no answer, no such domain, timeout, ...).
  \<^item> \<open>ip_address\<close> is \<^verbatim>\<open>ipaddress.ip_address\<close>: \<open>None\<close> where it raises
    \<^verbatim>\<open>ValueError\<close>, otherwise the three properties of the address the provider reads.
  \<^item> \<open>http\<close> is the network: the response to a request, or the exception raised.
  \<^item> \<open>sha256_hexdigest\<close> is the hexadecimal SHA-256 digest of \<^verbatim>\<open>hashlib\<close>.
  \<^item> \<open>parse_range_header\<close> tells whether the framework parses the value of a \<^verbatim>\<open>Range\<close>
    header (\<^verbatim>\<open>request.range\<close> is then set); \<open>parse_header_params\<close> is the dictionary of
    parameters that \<^verbatim>\<open>cgi.parse_header\<close> returns.
  \<^item> \<open>guess_type\<close> and \<open>guess_extension\<close> are those of \<^verbatim>\<open>mimetypes\<close> (of \<open>guess_type\<close>
    the type, its first component).
  \<^item> \<open>json_loads\<close> is \<^verbatim>\<open>json.loads\<close> of the decoded bytes, \<open>None\<close> where it raises.
  \<^item> \<open>sign_message\<close> and \<open>verify_signature\<close> are those of
    \<^verbatim>\<open>ocean_provider.utils.accounts\<close> with the wallet of the provider; the latter gives
    the exception raised, \<open>None\<close> when it returns.
  \<^item> \<open>prepare_url\<close> is \<^verbatim>\<open>PreparedRequest.prepare_url\<close> followed by reading the URL.
  \<^item> \<open>get_download_url\<close> is the URL the storage plugin generates, and
    \<open>get_asset_download_urls\<close> the same for every file of the asset of a DID, fetched
    from the metadata store.
\<close>

record ip_info =
  is_private :: bool
  is_reserved :: bool
  is_loopback :: bool

record http_request =
  rq_method :: string
  rq_url :: string
  rq_headers :: "string option dict"
  rq_params :: "string dict"
  rq_stream :: bool
  rq_timeout :: "nat option"

record http_response =
  status_code :: nat
  rs_headers :: "string dict"
  content :: string

record world =
  allow_non_public_ip :: bool
  requests_timeout :: nat
  requests_chunk_size :: nat
  operator_service_url :: string
  provider_address :: string
  resolve :: "string \<Rightarrow> string \<Rightarrow> exn + string list"
  ip_address :: "string \<Rightarrow> ip_info option"
  http :: "http_request \<Rightarrow> exn + http_response"
  sha256_hexdigest :: "string \<Rightarrow> string"
  parse_range_header :: "string \<Rightarrow> bool"
  parse_header_params :: "string \<Rightarrow> string dict"
  guess_type :: "string \<Rightarrow> string option"
  guess_extension :: "string \<Rightarrow> string option"
  json_loads :: "string \<Rightarrow> json option"
  sign_message :: "string \<Rightarrow> string"
  verify_signature :: "string option \<Rightarrow> string option \<Rightarrow> string \<Rightarrow> nat \<Rightarrow> exn option"
  prepare_url :: "string \<Rightarrow> string option dict \<Rightarrow> exn + string"
  get_download_url :: "string option \<Rightarrow> exn + string"
  get_asset_download_urls :: "string \<Rightarrow> exn + string list"

section \<open>\<^verbatim>\<open>ocean_provider/utils/url.py\<close>: the safe-URL check\<close>

definition is_safe_schema :: "string \<Rightarrow> bool" where
  "is_safe_schema u =
     (case urlparse u of
        Inl e \<Rightarrow> False
      | Inr result \<Rightarrow> scheme result \<noteq> [] \<and> netloc result \<noteq> [])"

definition is_ip :: "string \<Rightarrow> bool" where
  "is_ip address = isnumeric (filter (\<lambda>c. c \<noteq> CHR ''.'') address)"

text \<open>
  What \<^verbatim>\<open>validate_dns_records\<close> iterates over: the answer of the resolver, or a Python
  string, whose iteration yields its characters, each a string of length one.
\<close>

datatype dns_record = Str string | Rdata string

datatype records = Answer "string list" | PyStr string

fun iterate :: "records \<Rightarrow> dns_record list" where
  "iterate (Answer ts) = map Rdata ts"
| "iterate (PyStr s) = map (\<lambda>c. Str [c]) s"

text \<open>
  \<^verbatim>\<open>_get_records\<close>: every exception of the resolution is caught and becomes \<^verbatim>\<open>None\<close>.
  (The resolver object, built before the \<^verbatim>\<open>try\<close>, is taken as built: the system has a
  resolver configuration.)
\<close>

definition get_records :: "world \<Rightarrow> string \<Rightarrow> string \<Rightarrow> records option" where
  "get_records w domain record_type =
     (case resolve w domain record_type of
        Inr answer \<Rightarrow> Some (Answer answer)
      | Inl e \<Rightarrow> None)"

definition validate_dns_record :: "world \<Rightarrow> dns_record \<Rightarrow> string \<Rightarrow> string \<Rightarrow> bool" where
  "validate_dns_record w record domain record_type =
     (let val = (case record of Str s \<Rightarrow> s | Rdata t \<Rightarrow> strip t)
      in case ip_address w val of
           None \<Rightarrow> False
         | Some ip \<Rightarrow>
             if is_private ip \<or> is_reserved ip \<or> is_loopback ip
             then (if allow_non_public_ip w then True else False)
             else True)"

fun validate_each :: "world \<Rightarrow> string \<Rightarrow> dns_record list \<Rightarrow> string \<Rightarrow> bool" where
  "validate_each w domain [] record_type = True"
| "validate_each w domain (record # rs) record_type =
     (if \<not> validate_dns_record w record domain record_type then False
      else validate_each w domain rs record_type)"

definition validate_dns_records :: "world \<Rightarrow> string \<Rightarrow> records option \<Rightarrow> string \<Rightarrow> bool" where
  "validate_dns_records w domain recs record_type =
     (case recs of
        None \<Rightarrow> True
      | Some rs \<Rightarrow> validate_each w domain (iterate rs) record_type)"

definition is_safe_domain :: "world \<Rightarrow> string \<Rightarrow> bool" where
  "is_safe_domain w domain =
     (let ip_v4_records = get_records w domain ''A'';
          ip_v6_records = get_records w domain ''AAAA'';
          result = (validate_dns_records w domain ip_v4_records ''A'' \<and>
                    validate_dns_records w domain ip_v6_records ''AAAA'')
      in if \<not> is_ip domain then result
         else result \<and> validate_dns_records w domain (Some (PyStr domain)) [])"

text \<open>
  \<^verbatim>\<open>is_safe_url\<close> parses the URL a second time outside the \<^verbatim>\<open>try\<close> of
  \<^verbatim>\<open>is_safe_schema\<close>; \<open>is_safe_schema_parses\<close> below shows that this second call
  cannot raise.
\<close>

definition is_safe_url :: "world \<Rightarrow> string \<Rightarrow> bool" where
  "is_safe_url w u =
     (if \<not> is_safe_schema u then False
      else (case urlparse u of
              Inr result \<Rightarrow> is_safe_domain w (netloc result)
            | Inl e \<Rightarrow> False))"


section \<open>\<^verbatim>\<open>ocean_provider/utils/url.py\<close>: the content probe\<close>

text \<open>
  The requests a function sends are its visible effect: each one is appended to a log,
  which is passed in and returned, and the network (\<open>http\<close>) answers it.
\<close>

type_synonym log = "http_request list"

definition send :: "world \<Rightarrow> http_request \<Rightarrow> log \<Rightarrow> (exn + http_response) \<times> log" where
  "send w rq log = (http w rq, log @ [rq])"

text \<open>Response headers are a case-insensitive dictionary.\<close>

definition header_get :: "string dict \<Rightarrow> string \<Rightarrow> string option" where
  "header_get hs name = map_of (map (\<lambda>(k, v). (lower k, v)) hs) (lower name)"

text \<open>
  \<^verbatim>\<open>iter_content(chunk_size)\<close>: the body in pieces of \<open>chunk_size\<close> bytes, the last one
  possibly shorter. (A chunk size of zero is no configuration of the provider; the
  model yields nothing for it.)
\<close>

function iter_content :: "nat \<Rightarrow> string \<Rightarrow> string list" where
  "iter_content chunk_size bs =
     (if chunk_size = 0 \<or> bs = [] then []
      else take chunk_size bs # iter_content chunk_size (drop chunk_size bs))"
  by pat_completeness auto
termination
  by (relation "measure (\<lambda>(chunk_size, bs). length bs)") auto

declare iter_content.simps [simp del]

text \<open>
  \<^verbatim>\<open>hashlib.sha256()\<close>: the state is the bytes fed so far, \<^verbatim>\<open>update\<close> appends a chunk and
  \<^verbatim>\<open>hexdigest\<close> is the digest function of the library on them.
\<close>

definition sha_update :: "string \<Rightarrow> string \<Rightarrow> string" where
  "sha_update chunk sha = sha @ chunk"

definition probe_request :: "world \<Rightarrow> string \<Rightarrow> string \<Rightarrow> http_request" where
  "probe_request w m u =
     \<lparr>rq_method = m, rq_url = u, rq_headers = [(''Accept-Encoding'', Some ''identity'')],
      rq_params = [], rq_stream = False, rq_timeout = Some (requests_timeout w)\<rparr>"

text \<open>The loop of \<^verbatim>\<open>_get_result_from_url\<close> over the methods \<^verbatim>\<open>head\<close> and \<^verbatim>\<open>options\<close>.\<close>

fun get_result_loop ::
  "world \<Rightarrow> string \<Rightarrow> bool \<Rightarrow> string list \<Rightarrow> log \<Rightarrow> (exn + http_response option) \<times> log" where
  "get_result_loop w u with_checksum [] log = (Inr None, log)"
| "get_result_loop w u with_checksum (m # methods) log =
     (case send w (probe_request w m u) log of
        (Inl e, log') \<Rightarrow> (Inl e, log')
      | (Inr result, log') \<Rightarrow>
          if \<not> with_checksum \<and> status_code result = 200
             \<and> (truthy (header_get (rs_headers result) ''Content-Type'')
                \<or> truthy (header_get (rs_headers result) ''Content-Range''))
             \<and> truthy (header_get (rs_headers result) ''Content-Length'')
          then (Inr (Some result), log')
          else get_result_loop w u with_checksum methods log')"

definition get_result_from_url ::
  "world \<Rightarrow> string \<Rightarrow> bool \<Rightarrow> log \<Rightarrow> (exn + http_response \<times> string dict) \<times> log" where
  "get_result_from_url w u with_checksum log =
     (case get_result_loop w u with_checksum [''head'', ''options''] log of
        (Inl e, log1) \<Rightarrow> (Inl e, log1)
      | (Inr (Some result), log1) \<Rightarrow> (Inr (result, []), log1)
      | (Inr None, log1) \<Rightarrow>
          if \<not> with_checksum then
            (case send w \<lparr>rq_method = ''get'', rq_url = u, rq_headers = [], rq_params = [],
                          rq_stream = True, rq_timeout = Some (requests_timeout w)\<rparr> log1 of
               (Inl e, log2) \<Rightarrow> (Inl e, log2)
             | (Inr r, log2) \<Rightarrow> (Inr (r, []), log2))
          else
            (case send w \<lparr>rq_method = ''get'', rq_url = u, rq_headers = [], rq_params = [],
                          rq_stream = True, rq_timeout = None\<rparr> log1 of
               (Inl e, log2) \<Rightarrow> (Inl e, log2)
             | (Inr r, log2) \<Rightarrow>
                 if 400 \<le> status_code r \<and> status_code r < 600
                 then (Inl (RequestException ''HTTPError''), log2)
                 else
                   (let sha = fold sha_update
                                (iter_content (requests_chunk_size w) (content r)) []
                    in (Inr (r, [(''checksum'', sha256_hexdigest w sha),
                                 (''checksumType'', ''sha256'')]), log2))))"

text \<open>\<^verbatim>\<open>x or ""\<close> for an optional string.\<close>

fun or_empty :: "string option \<Rightarrow> string" where
  "or_empty None = []"
| "or_empty (Some s) = s"

definition check_url_details ::
  "world \<Rightarrow> string \<Rightarrow> bool \<Rightarrow> log \<Rightarrow> (exn + bool \<times> string dict) \<times> log" where
  "check_url_details w u with_checksum log =
     (if \<not> is_safe_url w u then (Inr (False, []), log)
      else
        (case get_result_from_url w u with_checksum log of
           (Inl (RequestException m), log') \<Rightarrow> (Inr (False, []), log')
         | (Inl e, log') \<Rightarrow> (Inl e, log')
         | (Inr (result, extra_data), log') \<Rightarrow>
             if status_code result = 200 then
               (let content_type0 = header_get (rs_headers result) ''Content-Type'';
                    content_length0 = header_get (rs_headers result) ''Content-Length'';
                    content_range = header_get (rs_headers result) ''Content-Range'';
                    content_length =
                      (if \<not> truthy content_length0 \<and> truthy content_range
                       then (case split (CHR ''-'') (or_empty content_range) of
                               a # b # rest \<Rightarrow> Some b
                             | _ \<Rightarrow> content_length0)
                       else content_length0);
                    content_type =
                      (if truthy content_type0
                       then (case split (CHR '';'') (or_empty content_type0) of
                               a # rest \<Rightarrow> Some a
                             | [] \<Rightarrow> content_type0)
                       else content_type0)
                in if truthy content_type \<or> truthy content_length
                   then
                     (let details = [(''contentLength'', or_empty content_length),
                                     (''contentType'', or_empty content_type)]
                      in (Inr (True, if extra_data \<noteq> [] then dict_update details extra_data
                                     else details), log'))
                   else (Inr (False, []), log'))
             else (Inr (False, []), log')))"

section \<open>\<^verbatim>\<open>ocean_provider/utils/util.py\<close>\<close>

text \<open>
  The request as Flask hands it to a handler: the query arguments, the JSON body and the
  headers. The values of the request data are strings.
\<close>

record request =
  args :: "string dict"
  json_body :: "string dict"
  in_headers :: "string dict"

definition get_request_data :: "request \<Rightarrow> string dict" where
  "get_request_data r = (if args r \<noteq> [] then args r else json_body r)"

text \<open>
  \<^verbatim>\<open>request.range\<close> is the framework's parse of the \<^verbatim>\<open>Range\<close> header: set when the header
  is present and \<open>parse_range_header\<close> accepts it.
\<close>

definition request_range :: "world \<Rightarrow> request \<Rightarrow> bool" where
  "request_range w r =
     (case header_get (in_headers r) ''Range'' of
        None \<Rightarrow> False
      | Some v \<Rightarrow> parse_range_header w v)"

text \<open>
  A response of the provider. \<open>Dumps j\<close> is the text \<^verbatim>\<open>json.dumps\<close> gives for \<open>j\<close>, and
  \<open>Stream chunks\<close> a body generated chunk by chunk.
\<close>

datatype body = Bytes string | Dumps json | Stream "string list"

record response =
  status :: nat
  out_headers :: "string option dict"
  out_content_type :: "string option"
  out_body :: body

text \<open>\<^verbatim>\<open>os.path.splitext(p)[1]\<close>: the extension starts at the last dot of the last path
  component, unless only dots precede it there.\<close>

definition splitext_ext :: "string \<Rightarrow> string" where
  "splitext_ext p =
     (let base = last (split (CHR ''/'') p);
          after_dot = rev (takeWhile (\<lambda>c. c \<noteq> CHR ''.'') (rev base));
          before_dot = rev (drop 1 (dropWhile (\<lambda>c. c \<noteq> CHR ''.'') (rev base)))
      in if CHR ''.'' \<in> set base \<and> list_ex (\<lambda>c. c \<noteq> CHR ''.'') before_dot
         then CHR ''.'' # after_dot
         else [])"

text \<open>The generator \<^verbatim>\<open>_generate\<close>: the chunks of 4096 bytes that are not empty.\<close>

definition generate :: "http_response \<Rightarrow> string list" where
  "generate r = filter (\<lambda>chunk. chunk \<noteq> []) (iter_content 4096 (content r))"

definition build_download_response ::
  "world \<Rightarrow> request \<Rightarrow> string \<Rightarrow> string \<Rightarrow> string option \<Rightarrow> log \<Rightarrow> (exn + response) \<times> log" where
  "build_download_response w r u download_url content_type0 log =
     (if \<not> is_safe_url w u then (Inl (ValueError (''Unsafe url '' @ u)), log)
      else
        (let is_range_request = request_range w r;
             download_request_headers =
               (if is_range_request then [(''Range'', header_get (in_headers r) ''range'')]
                else [])
         in case send w \<lparr>rq_method = ''get'', rq_url = download_url,
                          rq_headers = download_request_headers, rq_params = [],
                          rq_stream = True, rq_timeout = Some 3\<rparr> log of
              (Inl e, log') \<Rightarrow> (Inl e, log')
            | (Inr resp, log') \<Rightarrow>
                if is_range_request
                then (Inr \<lparr>status = status_code resp, out_headers = download_request_headers,
                           out_content_type = content_type0,
                           out_body = Stream (generate resp)\<rparr>, log')
                else
                  (let filename0 = last (split (CHR ''/'') u);
                       content_disposition_header =
                         header_get (rs_headers resp) ''content-disposition'';
                       content_filename =
                         (if truthy content_disposition_header
                          then map_of (parse_header_params w (or_empty content_disposition_header))
                                 ''filename''
                          else None);
                       filename1 = (if truthy content_filename then or_empty content_filename
                                    else filename0);
                       content_type_header = header_get (rs_headers resp) ''content-type'';
                       content_type1 = (if truthy content_type_header then content_type_header
                                        else content_type0);
                       file_ext = splitext_ext filename1;
                       content_type =
                         (if file_ext \<noteq> [] \<and> \<not> truthy content_type1 then guess_type w filename1
                          else content_type1);
                       filename =
                         (if file_ext \<noteq> [] \<and> \<not> truthy content_type1 then filename1
                          else if file_ext = [] \<and> truthy content_type1
                          then (let extension = guess_extension w (or_empty content_type1)
                                in if truthy extension then filename1 @ or_empty extension
                                   else filename1)
                          else filename1)
                   in (Inr \<lparr>status = status_code resp,
                             out_headers =
                               [(''Content-Disposition'', Some (''attachment;filename='' @ filename)),
                                (''Access-Control-Expose-Headers'', Some ''Content-Disposition''),
                                (''Connection'', Some ''close'')],
                             out_content_type = content_type,
                             out_body = Stream (generate resp)\<rparr>, log'))))"

definition get_compute_endpoint :: "world \<Rightarrow> string" where
  "get_compute_endpoint w = operator_service_url w @ ''/api/v1/operator/compute''"

definition get_compute_result_endpoint :: "world \<Rightarrow> string" where
  "get_compute_result_endpoint w = operator_service_url w @ ''/api/v1/operator/getResult''"

text \<open>\<^verbatim>\<open>body[k] = v\<close> when \<open>v\<close> is not \<^verbatim>\<open>None\<close>.\<close>

fun set_if_given :: "string \<Rightarrow> string option \<Rightarrow> string dict \<Rightarrow> string dict" where
  "set_if_given k None d = d"
| "set_if_given k (Some v) d = AList.update k v d"

definition process_compute_request :: "world \<Rightarrow> string dict \<Rightarrow> string dict" where
  "process_compute_request w data =
     (let did = map_of data ''documentId'';
          owner = map_of data ''consumerAddress'';
          job_id = map_of data ''jobId'';
          tx_id = map_of data ''transferTxId'';
          body0 = [(''providerAddress'', provider_address w)];
          body1 = set_if_given ''owner'' owner body0;
          body2 = set_if_given ''jobId'' job_id body1;
          body3 = set_if_given ''agreementId'' tx_id body2;
          body4 = set_if_given ''documentId'' did body3;
          msg_to_sign = provider_address w @ or_empty (map_of body4 ''jobId'')
                          @ or_empty (map_of body4 ''documentId'')
      in AList.update ''providerSignature'' (sign_message w msg_to_sign) body4)"

fun json_of_opt :: "string option \<Rightarrow> json" where
  "json_of_opt None = JNull"
| "json_of_opt (Some s) = JStr s"

definition service_unavailable :: "exn \<Rightarrow> string option dict \<Rightarrow> response" where
  "service_unavailable error ctx =
     \<lparr>status = 503,
      out_headers = [(''content-type'', Some ''application/json'')],
      out_content_type = None,
      out_body = Dumps (JObj [(''error'', JStr (str_of_exn error)),
                              (''context'', JObj (map (\<lambda>(k, v). (k, json_of_opt v)) ctx))])\<rparr>"

section \<open>The nonce store\<close>

text \<open>
  Modelled from the spec: \<^verbatim>\<open>ocean_provider/user_nonce.py\<close> (\<^verbatim>\<open>get_nonce\<close>,
  \<^verbatim>\<open>increment_nonce\<close>) is not among the sources. The spec: the store is a map from
  identity to integer; \<^verbatim>\<open>getNonce\<close> returns the current nonce of the identity, 0 if it
  was never seen; \<^verbatim>\<open>incrementNonce\<close> advances the stored nonce by 1. The identity is
  what the handler read from the request data, which is \<^verbatim>\<open>None\<close> when the field is absent.
\<close>

type_synonym nonce_store = "string option \<rightharpoonup> nat"

definition get_nonce :: "nonce_store \<Rightarrow> string option \<Rightarrow> nat" where
  "get_nonce store address = (case store address of None \<Rightarrow> 0 | Some n \<Rightarrow> n)"

definition increment_nonce :: "nonce_store \<Rightarrow> string option \<Rightarrow> nonce_store" where
  "increment_nonce store address = store(address \<mapsto> get_nonce store address + 1)"

text \<open>The state a handler runs in: the nonce store and the log of requests sent.\<close>

record state =
  nonces :: nonce_store
  sent :: log

section \<open>\<^verbatim>\<open>ocean_provider/routes/consume.py\<close>\<close>

definition json_headers :: "string option dict" where
  "json_headers = [(''content-type'', Some ''application/json'')]"


text \<open>The loop of \<^verbatim>\<open>fileinfo\<close> over \<^verbatim>\<open>enumerate(url_list)\<close>.\<close>

fun fileinfo_loop ::
  "world \<Rightarrow> bool \<Rightarrow> nat \<Rightarrow> string list \<Rightarrow> log \<Rightarrow> (exn + json list) \<times> log" where
  "fileinfo_loop w with_checksum i [] log = (Inr [], log)"
| "fileinfo_loop w with_checksum i (u # us) log =
     (case check_url_details w u with_checksum log of
        (Inl e, log') \<Rightarrow> (Inl e, log')
      | (Inr (valid, details), log') \<Rightarrow>
          (let info = dict_update [(''index'', JNum (int i)), (''valid'', JBool valid)]
                        (map (\<lambda>(k, v). (k, JStr v)) details)
           in case fileinfo_loop w with_checksum (Suc i) us log' of
                (Inl e, log'') \<Rightarrow> (Inl e, log'')
              | (Inr files_info, log'') \<Rightarrow> (Inr (JObj info # files_info), log'')))"

text \<open>\<^verbatim>\<open>fileinfo\<close> has no \<^verbatim>\<open>try\<close>: an exception of a collaborator leaves the handler.\<close>

definition fileinfo :: "world \<Rightarrow> request \<Rightarrow> state \<Rightarrow> (exn + response) \<times> state" where
  "fileinfo w r st =
     (let data = get_request_data r;
          did = map_of data ''did'';
          u = map_of data ''url'';
          url_list =
            (if truthy did then get_asset_download_urls w (or_empty did)
             else (case get_download_url w u of
                     Inl e \<Rightarrow> Inl e
                   | Inr d \<Rightarrow> Inr [d]));
          with_checksum = truthy (map_of data ''checksum'')
      in case url_list of
           Inl e \<Rightarrow> (Inl e, st)
         | Inr urls \<Rightarrow>
             (case fileinfo_loop w with_checksum 0 urls (sent st) of
                (Inl e, log') \<Rightarrow> (Inl e, st\<lparr>sent := log'\<rparr>)
              | (Inr files_info, log') \<Rightarrow>
                  (Inr \<lparr>status = 200, out_headers = json_headers, out_content_type = None,
                        out_body = Dumps (JArr files_info)\<rparr>, st\<lparr>sent := log'\<rparr>)))"

section \<open>\<^verbatim>\<open>ocean_provider/routes/compute.py\<close>\<close>

definition standard_headers :: "string option dict" where
  "standard_headers = [(''Content-type'', Some ''application/json''), (''Connection'', Some ''close'')]"

definition keys_to_filter :: "string list" where
  "keys_to_filter = [''resultsUrl'', ''algorithmLogUrl'', ''resultsDid'']"

text \<open>
  \<^verbatim>\<open>job_info.pop(k, None)\<close> for each key to filter: defined on a dictionary; a list has
  no two-argument \<^verbatim>\<open>pop\<close> and a scalar has none at all.
\<close>

fun pop_keys :: "json \<Rightarrow> exn + json" where
  "pop_keys (JObj d) = Inr (JObj (fold AList.delete keys_to_filter d))"
| "pop_keys (JArr xs) = Inl (TypeError ''pop expected at most 1 argument, got 2'')"
| "pop_keys j = Inl (AttributeError ''object has no attribute pop'')"

fun filter_jobs :: "json list \<Rightarrow> exn + json list" where
  "filter_jobs [] = Inr []"
| "filter_jobs (job_info # rest) =
     (case pop_keys job_info of
        Inl e \<Rightarrow> Inl e
      | Inr filtered \<Rightarrow>
          (case filter_jobs rest of
             Inl e \<Rightarrow> Inl e
           | Inr out \<Rightarrow> Inr (filtered # out)))"

text \<open>The context of an error response: the request data.\<close>

definition context_of :: "string dict \<Rightarrow> string option dict" where
  "context_of data = map (\<lambda>(k, v). (k, Some v)) data"

text \<open>
  The end of \<^verbatim>\<open>computeStatus\<close>, after the signature was looked at: the status
  information is filtered unless the request is signed and the signature verified.
\<close>

definition status_response :: "world \<Rightarrow> string dict \<Rightarrow> http_response \<Rightarrow> bool \<Rightarrow> response" where
  "status_response w data resp signed_request =
     (if \<not> signed_request then
        (case json_loads w (content resp) of
           None \<Rightarrow> service_unavailable (ValueError ''JSONDecodeError'') (context_of data)
         | Some loaded \<Rightarrow>
             (let resp_content = (case loaded of JArr xs \<Rightarrow> xs | j \<Rightarrow> [j])
              in case filter_jobs resp_content of
                   Inl e \<Rightarrow> service_unavailable e (context_of data)
                 | Inr filtered \<Rightarrow>
                     \<lparr>status = status_code resp, out_headers = standard_headers,
                      out_content_type = None, out_body = Dumps (JArr filtered)\<rparr>))
      else \<lparr>status = status_code resp, out_headers = standard_headers,
            out_content_type = None, out_body = Bytes (content resp)\<rparr>)"

definition computeStatus :: "world \<Rightarrow> request \<Rightarrow> state \<Rightarrow> response \<times> state" where
  "computeStatus w r st =
     (let data = get_request_data r;
          body = process_compute_request w data
      in case send w \<lparr>rq_method = ''get'', rq_url = get_compute_endpoint w,
                       rq_headers = standard_headers, rq_params = body,
                       rq_stream = False, rq_timeout = None\<rparr> (sent st) of
           (Inl e, log') \<Rightarrow> (service_unavailable e (context_of data), st\<lparr>sent := log'\<rparr>)
         | (Inr resp, log') \<Rightarrow>
             (let st1 = st\<lparr>sent := log'\<rparr>
              in if truthy (map_of data ''signature'') then
                   (let owner = map_of data ''consumerAddress'';
                        did = map_of data ''documentId'';
                        jobId = map_of data ''jobId'';
                        original_msg = fmt owner @ fmt jobId @ fmt did
                    in case verify_signature w owner (map_of data ''signature'') original_msg
                              (get_nonce (nonces st1) owner) of
                         None \<Rightarrow>
                           (status_response w data resp True,
                            st1\<lparr>nonces := increment_nonce (nonces st1) owner\<rparr>)
                       | Some (InvalidSignatureError m) \<Rightarrow>
                           (status_response w data resp False,
                            st1\<lparr>nonces := increment_nonce (nonces st1) owner\<rparr>)
                       | Some e \<Rightarrow> (service_unavailable e (context_of data), st1))
                 else (status_response w data resp False, st1)))"

text \<open>
  \<^verbatim>\<open>computeResult\<close> prepares the URL of the result outside its \<^verbatim>\<open>try\<close>, increments the
  nonce and then builds the download response inside it.
\<close>

definition computeResult :: "world \<Rightarrow> request \<Rightarrow> state \<Rightarrow> (exn + response) \<times> state" where
  "computeResult w r st =
     (let data = get_request_data r;
          u = get_compute_result_endpoint w;
          msg_to_sign = fmt (map_of data ''jobId'') @ fmt (map_of data ''index'')
                          @ fmt (map_of data ''consumerAddress'');
          provider_signature = sign_message w msg_to_sign;
          params = [(''index'', map_of data ''index''),
                    (''consumerAddress'', map_of data ''consumerAddress''),
                    (''jobId'', map_of data ''jobId''),
                    (''consumerSignature'', map_of data ''signature''),
                    (''providerSignature'', Some provider_signature)]
      in case prepare_url w u params of
           Inl e \<Rightarrow> (Inl e, st)
         | Inr result_url \<Rightarrow>
             (let st1 = st\<lparr>nonces := increment_nonce (nonces st) (map_of data ''consumerAddress'')\<rparr>
              in case build_download_response w r result_url result_url None (sent st1) of
                   (Inr resp, log') \<Rightarrow> (Inr resp, st1\<lparr>sent := log'\<rparr>)
                 | (Inl e, log') \<Rightarrow>
                     (Inr (service_unavailable e
                             [(''jobId'', map_of data ''jobId''),
                              (''index'', map_of data ''index''),
                              (''consumerAddress'', map_of data ''consumerAddress'')]),
                      st1\<lparr>sent := log'\<rparr>)))"

section \<open>Predicates of the statements\<close>

text \<open>A job entry that still has one of the keys to filter.\<close>

fun has_filtered_key :: "json \<Rightarrow> bool" where
  "has_filtered_key (JObj d) = list_ex (\<lambda>k. map_of d k \<noteq> None) keys_to_filter"
| "has_filtered_key j = False"

text \<open>A body that is the dump of a list of job entries, none with a key to filter.\<close>

fun redacted :: "body \<Rightarrow> bool" where
  "redacted (Dumps (JArr jobs)) = list_all (\<lambda>j. \<not> has_filtered_key j) jobs"
| "redacted b = False"

section \<open>An example world\<close>

text \<open>
  One value of the record, used to run the definitions on concrete requests: a resolver
  that knows two names, the library's answers on the texts that occur, and a network with
  a file server and the operator service.
\<close>

definition example_resolve :: "string \<Rightarrow> string \<Rightarrow> exn + string list" where
  "example_resolve domain record_type =
     (if domain = ''files.example.org'' \<and> record_type = ''A'' then Inr [''93.184.216.34'']
      else if domain = ''intranet.example.org'' \<and> record_type = ''A'' then Inr [''10.0.0.5'']
      else Inl (Exception ''NXDOMAIN''))"

definition example_ip_address :: "string \<Rightarrow> ip_info option" where
  "example_ip_address =
     map_of [(''93.184.216.34'', \<lparr>is_private = False, is_reserved = False, is_loopback = False\<rparr>),
             (''10.0.0.5'', \<lparr>is_private = True, is_reserved = False, is_loopback = False\<rparr>),
             (''127.0.0.1'', \<lparr>is_private = True, is_reserved = False, is_loopback = True\<rparr>)]"

definition example_http :: "http_request \<Rightarrow> exn + http_response" where
  "example_http rq =
     (if rq_url rq = ''http://files.example.org/data/report'' then
        (if map_of (rq_headers rq) ''Range'' = Some (Some ''bytes=0-1'')
         then Inr \<lparr>status_code = 206,
                   rs_headers = [(''Content-Type'', ''text/plain''), (''Content-Range'', ''bytes 0-1/3'')],
                   content = ''ab''\<rparr>
         else Inr \<lparr>status_code = 200,
                   rs_headers = [(''Content-Type'', ''text/plain''), (''Content-Length'', ''3'')],
                   content = ''abc''\<rparr>)
      else if rq_url rq = ''http://files.example.org/bare'' then
        Inr \<lparr>status_code = 200, rs_headers = [], content = ''abc''\<rparr>
      else if rq_url rq = ''http://files.example.org/data/report.csv'' then
        Inr \<lparr>status_code = 200, rs_headers = [(''Content-Length'', ''3'')], content = ''a,b''\<rparr>
      else if rq_url rq = ''http://operator.example.org/api/v1/operator/compute'' then
        Inr \<lparr>status_code = 200, rs_headers = [(''Content-Type'', ''application/json'')],
             content = ''JOBS''\<rparr>
      else Inl (RequestException ''ConnectionError''))"

definition example_world :: world where
  "example_world =
     \<lparr>allow_non_public_ip = False,
      requests_timeout = 9,
      requests_chunk_size = 2,
      operator_service_url = ''http://operator.example.org'',
      provider_address = ''0xProvider'',
      resolve = example_resolve,
      ip_address = example_ip_address,
      http = example_http,
      sha256_hexdigest =
        (\<lambda>bs. or_empty (map_of
           [(''abc'', ''ba7816bf8f01cfea414140de5dae2223b00361a396177a9cb410ff61f20015ad'')] bs)),
      parse_range_header = (\<lambda>v. v = ''bytes=0-1''),
      parse_header_params = (\<lambda>v. []),
      guess_type = map_of [(''report.csv'', ''text/csv'')],
      guess_extension = map_of [(''text/plain'', ''.txt'')],
      json_loads = map_of
        [(''JOBS'', JArr [JObj [(''jobId'', JStr ''7''), (''status'', JNum 70),
                               (''resultsUrl'', JStr ''http://results.example.org/7''),
                               (''algorithmLogUrl'', JStr ''http://results.example.org/7.log''),
                               (''resultsDid'', JStr ''did:op:7'')]])],
      sign_message = (\<lambda>m. ''signed:'' @ m),
      verify_signature =
        (\<lambda>owner signature msg n.
           if signature = Some ''good'' then None
           else Some (InvalidSignatureError ''invalid signature'')),
      prepare_url = (\<lambda>u params. Inr u),
      get_download_url =
        (\<lambda>u. case u of None \<Rightarrow> Inl (Exception ''no url'') | Some v \<Rightarrow> Inr v),
      get_asset_download_urls = (\<lambda>did. Inl (Exception ''unknown asset''))\<rparr>"

section \<open>Properties of the safe-URL check\<close>

lemma is_safe_schema_parses:
  "is_safe_schema u \<Longrightarrow> \<exists>result. urlparse u = Inr result"
  by (cases "urlparse u") (simp_all add: is_safe_schema_def)

lemma urlparse_v4: "urlparse ''http://127.0.0.1/x'' = Inr \<lparr>scheme = ''http'', netloc = ''127.0.0.1''\<rparr>"
  by code_simp

lemma urlparse_v6: "urlparse ''http://[::1]/x'' = Inr \<lparr>scheme = ''http'', netloc = ''[::1]''\<rparr>"
  by code_simp

lemma is_ip_v4: "is_ip ''127.0.0.1''"
  by code_simp

lemma not_is_ip_v6: "\<not> is_ip ''[::1]''"
  by code_simp

lemma validate_dns_record_resolve [simp]:
  "validate_dns_record (w\<lparr>resolve := r\<rparr>) record domain record_type
     = validate_dns_record w record domain record_type"
  by (simp add: validate_dns_record_def)

lemma validate_each_resolve [simp]:
  "validate_each (w\<lparr>resolve := r\<rparr>) domain rs record_type
     = validate_each w domain rs record_type"
  by (induction rs) simp_all

lemma validate_dns_records_resolve [simp]:
  "validate_dns_records (w\<lparr>resolve := r\<rparr>) domain recs record_type
     = validate_dns_records w domain recs record_type"
  by (simp add: validate_dns_records_def split: option.splits)

lemma validate_dns_records_None [simp]:
  "validate_dns_records w domain None record_type"
  by (simp add: validate_dns_records_def)

lemma get_records_failure:
  "resolve w domain record_type = Inl e \<Longrightarrow> get_records w domain record_type = None"
  by (simp add: get_records_def)

lemma get_records_weaker:
  "r' domain t = resolve w domain t \<or> isl (r' domain t) \<Longrightarrow>
   validate_dns_records w domain (get_records w domain t) t \<Longrightarrow>
   validate_dns_records w domain (get_records (w\<lparr>resolve := r'\<rparr>) domain t) t"
  by (cases "r' domain t") (auto simp: get_records_def)

text \<open>
  Claim C5. For every domain and every record type, a failure of the resolution, whatever
  the exception, is caught by \<^verbatim>\<open>_get_records\<close> and becomes \<^verbatim>\<open>None\<close>, and
  \<^verbatim>\<open>validate_dns_records\<close> accepts \<^verbatim>\<open>None\<close>. When both resolutions fail, a domain that is
  not a dotted number is safe. And failures alone never make a domain unsafe: a resolver
  that fails where another one answered, and answers the same elsewhere, leaves every safe
  domain safe. (\<open>is_safe_domain\<close> and \<open>is_safe_url\<close> return a truth value for every
  behaviour of the resolver: no exception of it reaches the caller.)
\<close>

theorem resolver_failure_is_no_violation:
  "(resolve w domain record_type = Inl e \<longrightarrow>
      get_records w domain record_type = None \<and>
      validate_dns_records w domain (get_records w domain record_type) record_type)
   \<and> (resolve w domain ''A'' = Inl e1 \<and> resolve w domain ''AAAA'' = Inl e2 \<and> \<not> is_ip domain \<longrightarrow>
        is_safe_domain w domain)
   \<and> ((\<forall>t. r' domain t = resolve w domain t \<or> isl (r' domain t)) \<and> is_safe_domain w domain \<longrightarrow>
        is_safe_domain (w\<lparr>resolve := r'\<rparr>) domain)"
proof (intro conjI impI)
  assume "resolve w domain record_type = Inl e"
  then show "get_records w domain record_type = None"
    by (rule get_records_failure)
  then show "validate_dns_records w domain (get_records w domain record_type) record_type"
    by simp
next
  assume "resolve w domain ''A'' = Inl e1 \<and> resolve w domain ''AAAA'' = Inl e2 \<and> \<not> is_ip domain"
  then show "is_safe_domain w domain"
    by (simp add: is_safe_domain_def get_records_failure)
next
  assume a: "(\<forall>t. r' domain t = resolve w domain t \<or> isl (r' domain t)) \<and> is_safe_domain w domain"
  then have v4: "validate_dns_records w domain (get_records w domain ''A'') ''A''"
    and v6: "validate_dns_records w domain (get_records w domain ''AAAA'') ''AAAA''"
    and lit: "is_ip domain \<longrightarrow> validate_dns_records w domain (Some (PyStr domain)) []"
    by (auto simp: is_safe_domain_def Let_def split: if_splits)
  from a have r: "\<And>t. r' domain t = resolve w domain t \<or> isl (r' domain t)"
    by blast
  show "is_safe_domain (w\<lparr>resolve := r'\<rparr>) domain"
    using get_records_weaker [where r' = r' and w = w and domain = domain and t = "''A''", OF r v4]
      get_records_weaker [where r' = r' and w = w and domain = domain and t = "''AAAA''", OF r v6] lit
    by (simp add: is_safe_domain_def Let_def)
qed

lemma is_safe_url_v4: "is_safe_url w ''http://127.0.0.1/x'' = is_safe_domain w ''127.0.0.1''"
  by (simp add: is_safe_url_def is_safe_schema_def urlparse_v4)

lemma is_safe_url_v6: "is_safe_url w ''http://[::1]/x'' = is_safe_domain w ''[::1]''"
  by (simp add: is_safe_url_def is_safe_schema_def urlparse_v6)

text \<open>
  \<^verbatim>\<open>is_safe_domain\<close> hands the domain itself to \<^verbatim>\<open>validate_dns_records\<close> as the records,
  so its characters are validated one by one: a dotted number whose first character the
  library rejects as an address is unsafe, with or without the flag.
\<close>

lemma dotted_literal_rejected:
  "is_ip (c # domain) \<Longrightarrow> ip_address w [c] = None \<Longrightarrow> \<not> is_safe_domain w (c # domain)"
  by (simp add: is_safe_domain_def Let_def validate_dns_records_def validate_dns_record_def)

lemma is_safe_domain_dns:
  "is_safe_domain w domain \<Longrightarrow>
     validate_dns_records w domain (get_records w domain ''A'') ''A'' \<and>
     validate_dns_records w domain (get_records w domain ''AAAA'') ''AAAA''"
  by (simp add: is_safe_domain_def Let_def split: if_splits)

text \<open>
  Claim C1, as amended. The literal is looked at only when the network location is made of
  digits and dots (\<open>is_ip\<close>). For every other network location the result is the
  conjunction of the checks of its A and AAAA records, and for every network location a
  safe result implies both checks. The bracketed IPv6 literal \<^verbatim>\<open>[::1]\<close> is not a dotted
  number, so \<^verbatim>\<open>http://[::1]/x\<close> is as safe as the records of \<^verbatim>\<open>[::1]\<close> are, whatever
  the flag. By default \<^verbatim>\<open>http://127.0.0.1/x\<close> is unsafe (the library rejects the text
  \<^verbatim>\<open>1\<close> as an address). What the flag or a public address gives for a dotted literal
  is not stated here.
\<close>

theorem is_safe_url_ip_literal:
  "(\<not> is_ip domain \<longrightarrow>
      is_safe_domain w domain =
        (validate_dns_records w domain (get_records w domain ''A'') ''A'' \<and>
         validate_dns_records w domain (get_records w domain ''AAAA'') ''AAAA''))
   \<and> (is_safe_domain w domain \<longrightarrow>
        validate_dns_records w domain (get_records w domain ''A'') ''A'' \<and>
        validate_dns_records w domain (get_records w domain ''AAAA'') ''AAAA'')
   \<and> \<not> is_ip ''[::1]''
   \<and> is_safe_url w ''http://[::1]/x'' = is_safe_domain w ''[::1]''
   \<and> (\<not> allow_non_public_ip w \<and> ip_address w ''1'' = None \<longrightarrow>
        \<not> is_safe_url w ''http://127.0.0.1/x'')"
proof (intro conjI impI)
  assume "\<not> is_ip domain"
  then show "is_safe_domain w domain =
        (validate_dns_records w domain (get_records w domain ''A'') ''A'' \<and>
         validate_dns_records w domain (get_records w domain ''AAAA'') ''AAAA'')"
    by (simp add: is_safe_domain_def Let_def)
next
  assume "is_safe_domain w domain"
  then show "validate_dns_records w domain (get_records w domain ''A'') ''A''"
    and "validate_dns_records w domain (get_records w domain ''AAAA'') ''AAAA''"
    by (simp_all add: is_safe_domain_dns)
next
  show "\<not> is_ip ''[::1]''" by (rule not_is_ip_v6)
next
  show "is_safe_url w ''http://[::1]/x'' = is_safe_domain w ''[::1]''"
    by (rule is_safe_url_v6)
next
  assume a: "\<not> allow_non_public_ip w \<and> ip_address w ''1'' = None"
  then have "\<not> validate_dns_records w ''127.0.0.1'' (Some (PyStr ''127.0.0.1'')) []"
    by (simp add: validate_dns_records_def validate_dns_record_def)
  then show "\<not> is_safe_url w ''http://127.0.0.1/x''"
    by (simp add: is_safe_url_v4 is_safe_domain_def Let_def is_ip_v4)
qed

lemma example_v6_unresolved:
  "resolve example_world ''[::1]'' t = Inl (Exception ''NXDOMAIN'')"
  by (simp add: example_world_def example_resolve_def)

theorem is_safe_url_ip_literal_witness:
  "\<not> is_ip ''[::1]''
   \<and> is_safe_domain example_world ''[::1]''
   \<and> is_safe_url example_world ''http://[::1]/x''
   \<and> \<not> allow_non_public_ip example_world
   \<and> ip_address example_world ''1'' = None
   \<and> \<not> is_safe_url example_world ''http://127.0.0.1/x''"
  using is_safe_url_ip_literal [of "''[::1]''" example_world]
  by (simp add: get_records_def example_v6_unresolved)
     (simp add: example_world_def example_ip_address_def)

text \<open>
  Claim C1 as stated fails: by default, with a resolver that has no records for
  \<^verbatim>\<open>[::1]\<close>, the URL \<^verbatim>\<open>http://[::1]/x\<close> is safe.
\<close>

theorem ipv6_loopback_literal_counterexample:
  "\<not> allow_non_public_ip example_world \<and> is_safe_url example_world ''http://[::1]/x''"
  by (simp add: is_safe_url_v6 is_safe_domain_def not_is_ip_v6 get_records_def
        example_v6_unresolved)
     (simp add: example_world_def)

theorem resolver_failure_is_no_violation_witness:
  "resolve example_world ''files.example.org'' ''AAAA'' = Inl (Exception ''NXDOMAIN'')
   \<and> get_records example_world ''files.example.org'' ''AAAA'' = None
   \<and> validate_dns_records example_world ''files.example.org''
        (get_records example_world ''files.example.org'' ''AAAA'') ''AAAA''
   \<and> resolve example_world ''[::1]'' ''A'' = Inl (Exception ''NXDOMAIN'')
   \<and> is_safe_domain example_world ''[::1]''
   \<and> is_safe_domain example_world ''files.example.org''
   \<and> is_safe_domain (example_world\<lparr>resolve := (\<lambda>d t. Inl (Exception ''Timeout''))\<rparr>)
        ''files.example.org''"
proof -
  have safe: "is_safe_domain example_world ''files.example.org''"
    by code_simp
  have un: "resolve example_world ''files.example.org'' ''AAAA'' = Inl (Exception ''NXDOMAIN'')"
    by (simp add: example_world_def example_resolve_def)
  show ?thesis
    using resolver_failure_is_no_violation
      [of example_world "''files.example.org''" "''AAAA''" "Exception ''NXDOMAIN''"
          "Exception ''NXDOMAIN''" "Exception ''NXDOMAIN''"
          "\<lambda>d t. Inl (Exception ''Timeout'')"]
      resolver_failure_is_no_violation
      [of example_world "''[::1]''" "''A''" "Exception ''NXDOMAIN''"
          "Exception ''NXDOMAIN''" "Exception ''NXDOMAIN''"
          "\<lambda>d t. Inl (Exception ''Timeout'')"]
      safe un not_is_ip_v6
    by (simp add: example_v6_unresolved)
qed

section \<open>Properties of the content probe\<close>

lemma fold_sha_update:
  "0 < n \<Longrightarrow> fold sha_update (iter_content n bs) acc = acc @ bs"
proof (induction n bs arbitrary: acc rule: iter_content.induct)
  case (1 chunk_size bs)
  show ?case
  proof (cases "bs = []")
    case True
    then show ?thesis
      by (simp add: iter_content.simps)
  next
    case False
    with "1.prems" have step: "iter_content chunk_size bs =
        take chunk_size bs # iter_content chunk_size (drop chunk_size bs)"
      by (subst iter_content.simps) simp
    from False "1.prems" "1.IH" [of "acc @ take chunk_size bs"]
    show ?thesis
      by (simp add: step sha_update_def)
  qed
qed

lemma concat_iter_content:
  "0 < n \<Longrightarrow> concat (iter_content n bs) = bs"
proof (induction n bs rule: iter_content.induct)
  case (1 chunk_size bs)
  show ?case
  proof (cases "bs = []")
    case True
    then show ?thesis
      by (simp add: iter_content.simps)
  next
    case False
    with "1.prems" have step: "iter_content chunk_size bs =
        take chunk_size bs # iter_content chunk_size (drop chunk_size bs)"
      by (subst iter_content.simps) simp
    from False "1.prems" "1.IH" show ?thesis
      by (simp add: step)
  qed
qed


lemma get_result_from_url_checksum:
  assumes "0 < requests_chunk_size w"
    and "http w (probe_request w ''head'' u) = Inr h"
    and "http w (probe_request w ''options'' u) = Inr opt"
    and "http w \<lparr>rq_method = ''get'', rq_url = u, rq_headers = [], rq_params = [], rq_stream = True, rq_timeout = None\<rparr> = Inr r"
    and "\<not> (400 \<le> status_code r \<and> status_code r < 600)"
  shows "get_result_from_url w u True log =
           (Inr (r, [(''checksum'', sha256_hexdigest w (content r)),
                     (''checksumType'', ''sha256'')]),
            log @ [probe_request w ''head'' u, probe_request w ''options'' u,
                   \<lparr>rq_method = ''get'', rq_url = u, rq_headers = [], rq_params = [], rq_stream = True, rq_timeout = None\<rparr>])"
  using assms
  by (simp add: get_result_from_url_def send_def fold_sha_update)

lemma get_result_from_url_extra:
  "get_result_from_url w u with_checksum log = (Inr (result, extra), log') \<Longrightarrow>
   extra = [] \<or> (\<exists>h. extra = [(''checksum'', h), (''checksumType'', ''sha256'')])"
  by (auto simp: get_result_from_url_def Let_def
           split: prod.splits sum.splits option.splits if_splits)

lemma check_url_details_unsafe:
  "\<not> is_safe_url w u \<Longrightarrow> check_url_details w u with_checksum log = (Inr (False, []), log)"
  by (simp add: check_url_details_def)

lemma check_url_details_transport:
  "is_safe_url w u \<Longrightarrow>
   get_result_from_url w u with_checksum log = (Inl (RequestException m), log') \<Longrightarrow>
   check_url_details w u with_checksum log = (Inr (False, []), log')"
  by (simp add: check_url_details_def)

lemma get_result_from_url_head_fails:
  "http w (probe_request w ''head'' u) = Inl e \<Longrightarrow>
   get_result_from_url w u with_checksum log = (Inl e, log @ [probe_request w ''head'' u])"
  by (simp add: get_result_from_url_def send_def)

lemma truthy_iff: "truthy x \<longleftrightarrow> or_empty x \<noteq> []"
  by (cases x) simp_all

lemma check_url_details_valid:
  assumes "check_url_details w u with_checksum log = (Inr (True, details), log')"
  shows "\<exists>result extra.
           get_result_from_url w u with_checksum log = (Inr (result, extra), log') \<and>
           status_code result = 200 \<and>
           (truthy (map_of details ''contentType'') \<or> truthy (map_of details ''contentLength'')) \<and>
           (extra \<noteq> [] \<longrightarrow> map_of details ''checksum'' = map_of extra ''checksum'' \<and>
              map_of details ''checksumType'' = map_of extra ''checksumType'')"
proof -
  from assms have safe: "is_safe_url w u"
    by (auto simp: check_url_details_def split: if_splits)
  obtain res log1 where g: "get_result_from_url w u with_checksum log = (res, log1)"
    by (cases "get_result_from_url w u with_checksum log")
  from assms safe g obtain result extra where r: "res = Inr (result, extra)"
    by (cases res; cases "projl res") (auto simp: check_url_details_def)
  from get_result_from_url_extra g r
  have ex: "extra = [] \<or> (\<exists>h. extra = [(''checksum'', h), (''checksumType'', ''sha256'')])"
    by blast
  from assms safe g r have l: "log1 = log'" and st: "status_code result = 200"
    by (auto simp: check_url_details_def Let_def split: if_splits)
  from assms safe g r st ex
  have "(truthy (map_of details ''contentType'') \<or> truthy (map_of details ''contentLength'')) \<and>
        (extra \<noteq> [] \<longrightarrow> map_of details ''checksum'' = map_of extra ''checksum'' \<and>
              map_of details ''checksumType'' = map_of extra ''checksumType'')"
    by (auto simp: check_url_details_def Let_def dict_update_def truthy_iff split: if_splits)
  with g r l st show ?thesis by blast
qed

lemma get_result_from_url_checksum_only:
  assumes "0 < requests_chunk_size w"
    and "get_result_from_url w u True log = (Inr (r, extra), log')"
  shows "http w \<lparr>rq_method = ''get'', rq_url = u, rq_headers = [], rq_params = [],
                  rq_stream = True, rq_timeout = None\<rparr> = Inr r
         \<and> log' = log @ [probe_request w ''head'' u, probe_request w ''options'' u,
                          \<lparr>rq_method = ''get'', rq_url = u, rq_headers = [], rq_params = [],
                           rq_stream = True, rq_timeout = None\<rparr>]
         \<and> extra = [(''checksum'', sha256_hexdigest w (content r)),
                    (''checksumType'', ''sha256'')]"
  using assms
  by (auto simp: get_result_from_url_def send_def fold_sha_update Let_def
           split: sum.splits if_splits)

text \<open>
  Claim C8. With a checksum requested, the answers to \<^verbatim>\<open>HEAD\<close> and \<^verbatim>\<open>OPTIONS\<close> never end
  the probe, whatever their status and headers: whenever \<^verbatim>\<open>_get_result_from_url\<close> returns,
  it has sent the streamed \<^verbatim>\<open>GET\<close> after them and returns the response to it, with the
  digest of the whole body under \<^verbatim>\<open>checksum\<close> and \<^verbatim>\<open>sha256\<close> under \<^verbatim>\<open>checksumType\<close>;
  and it does return once the three requests are answered and the status of the last is
  no error. Feeding the hash chunk by chunk gives the digest of the body for every
  positive chunk size, so the digest is a function of the body alone and is the same at
  every call, whatever was sent before (\<open>log\<close>). Every valid descriptor of
  \<^verbatim>\<open>check_url_details\<close> holds both entries, and one is returned when the URL is safe, the
  status is 200 and a length is known.
\<close>

theorem checksum_always_full_get:
  assumes "0 < requests_chunk_size w"
    and "get = \<lparr>rq_method = ''get'', rq_url = u, rq_headers = [], rq_params = [],
                 rq_stream = True, rq_timeout = None\<rparr>"
    and "sent3 = log @ [probe_request w ''head'' u, probe_request w ''options'' u, get]"
  shows "(get_result_from_url w u True log = (Inr (r, extra), log') \<longrightarrow>
            http w get = Inr r \<and> log' = sent3 \<and>
            extra = [(''checksum'', sha256_hexdigest w (content r)),
                     (''checksumType'', ''sha256'')])
         \<and> (http w (probe_request w ''head'' u) = Inr h \<and>
             http w (probe_request w ''options'' u) = Inr opt \<and>
             http w get = Inr r \<and>
             \<not> (400 \<le> status_code r \<and> status_code r < 600) \<longrightarrow>
               get_result_from_url w u True log =
                 (Inr (r, [(''checksum'', sha256_hexdigest w (content r)),
                           (''checksumType'', ''sha256'')]), sent3) \<and>
               (is_safe_url w u \<and> status_code r = 200 \<and>
                truthy (header_get (rs_headers r) ''Content-Length'') \<longrightarrow>
                  (\<exists>d. check_url_details w u True log = (Inr (True, d), sent3))))
         \<and> fold sha_update (iter_content (requests_chunk_size w) bs) [] = bs
         \<and> (check_url_details w u True log = (Inr (True, details), log') \<longrightarrow>
              (\<exists>res. http w get = Inr res \<and> log' = sent3 \<and>
                 map_of details ''checksum'' = Some (sha256_hexdigest w (content res)) \<and>
                 map_of details ''checksumType'' = Some ''sha256''))"
proof (intro conjI impI)
  assume "get_result_from_url w u True log = (Inr (r, extra), log')"
  from get_result_from_url_checksum_only [OF assms(1) this]
  show "http w get = Inr r" and "log' = sent3"
    and "extra = [(''checksum'', sha256_hexdigest w (content r)), (''checksumType'', ''sha256'')]"
    by (simp_all add: assms(2) assms(3))
next
  assume a: "http w (probe_request w ''head'' u) = Inr h \<and>
             http w (probe_request w ''options'' u) = Inr opt \<and>
             http w get = Inr r \<and>
             \<not> (400 \<le> status_code r \<and> status_code r < 600)"
  then show g: "get_result_from_url w u True log =
                 (Inr (r, [(''checksum'', sha256_hexdigest w (content r)),
                           (''checksumType'', ''sha256'')]), sent3)"
    using get_result_from_url_checksum [of w u h opt r log] assms by simp
  assume "is_safe_url w u \<and> status_code r = 200 \<and>
                truthy (header_get (rs_headers r) ''Content-Length'')"
  then show "\<exists>d. check_url_details w u True log = (Inr (True, d), sent3)"
    by (simp add: check_url_details_def g Let_def)
next
  show "fold sha_update (iter_content (requests_chunk_size w) bs) [] = bs"
    using assms(1) by (simp add: fold_sha_update)
next
  assume "check_url_details w u True log = (Inr (True, details), log')"
  from check_url_details_valid [OF this] obtain res ex where
    g: "get_result_from_url w u True log = (Inr (res, ex), log')"
    and d: "ex \<noteq> [] \<longrightarrow> map_of details ''checksum'' = map_of ex ''checksum'' \<and>
              map_of details ''checksumType'' = map_of ex ''checksumType''"
    by blast
  from get_result_from_url_checksum_only [OF assms(1) g] d
  show "\<exists>res. http w get = Inr res \<and> log' = sent3 \<and>
                 map_of details ''checksum'' = Some (sha256_hexdigest w (content res)) \<and>
                 map_of details ''checksumType'' = Some ''sha256''"
    by (auto simp: assms(2) assms(3))
qed

lemma example_chunk: "requests_chunk_size example_world = 2"
  by (simp add: example_world_def)

lemma example_report_safe: "is_safe_url example_world ''http://files.example.org/data/report''"
  by code_simp

lemma example_report_head:
  "http example_world (probe_request example_world ''head'' ''http://files.example.org/data/report'')
     = Inr \<lparr>status_code = 200,
            rs_headers = [(''Content-Type'', ''text/plain''), (''Content-Length'', ''3'')],
            content = ''abc''\<rparr>"
  by code_simp

lemma example_report_options:
  "http example_world (probe_request example_world ''options'' ''http://files.example.org/data/report'')
     = Inr \<lparr>status_code = 200,
            rs_headers = [(''Content-Type'', ''text/plain''), (''Content-Length'', ''3'')],
            content = ''abc''\<rparr>"
  by code_simp

lemma example_report_get:
  "http example_world \<lparr>rq_method = ''get'', rq_url = ''http://files.example.org/data/report'',
      rq_headers = [], rq_params = [], rq_stream = True, rq_timeout = None\<rparr>
     = Inr \<lparr>status_code = 200,
            rs_headers = [(''Content-Type'', ''text/plain''), (''Content-Length'', ''3'')],
            content = ''abc''\<rparr>"
  by code_simp

theorem checksum_always_full_get_witness:
  "get_result_from_url example_world ''http://files.example.org/data/report'' True [] =
     (Inr (\<lparr>status_code = 200,
            rs_headers = [(''Content-Type'', ''text/plain''), (''Content-Length'', ''3'')],
            content = ''abc''\<rparr>,
           [(''checksum'', ''ba7816bf8f01cfea414140de5dae2223b00361a396177a9cb410ff61f20015ad''),
            (''checksumType'', ''sha256'')]),
      [probe_request example_world ''head'' ''http://files.example.org/data/report'',
       probe_request example_world ''options'' ''http://files.example.org/data/report'',
       \<lparr>rq_method = ''get'', rq_url = ''http://files.example.org/data/report'',
        rq_headers = [], rq_params = [], rq_stream = True, rq_timeout = None\<rparr>])
   \<and> iter_content 2 ''abc'' = [''ab'', ''c'']
   \<and> check_url_details example_world ''http://files.example.org/data/report'' True [] =
     (Inr (True, [(''contentLength'', ''3''), (''contentType'', ''text/plain''),
                  (''checksum'', ''ba7816bf8f01cfea414140de5dae2223b00361a396177a9cb410ff61f20015ad''),
                  (''checksumType'', ''sha256'')]),
      [probe_request example_world ''head'' ''http://files.example.org/data/report'',
       probe_request example_world ''options'' ''http://files.example.org/data/report'',
       \<lparr>rq_method = ''get'', rq_url = ''http://files.example.org/data/report'',
        rq_headers = [], rq_params = [], rq_stream = True, rq_timeout = None\<rparr>])"
proof -
  have chunks: "iter_content 2 ''abc'' = [''ab'', ''c'']"
    by code_simp
  have digest: "sha256_hexdigest example_world ''abc'' =
      ''ba7816bf8f01cfea414140de5dae2223b00361a396177a9cb410ff61f20015ad''"
    by (simp add: example_world_def)
  have c: "check_url_details example_world ''http://files.example.org/data/report'' True [] =
     (Inr (True, [(''contentLength'', ''3''), (''contentType'', ''text/plain''),
                  (''checksum'', ''ba7816bf8f01cfea414140de5dae2223b00361a396177a9cb410ff61f20015ad''),
                  (''checksumType'', ''sha256'')]),
      [probe_request example_world ''head'' ''http://files.example.org/data/report'',
       probe_request example_world ''options'' ''http://files.example.org/data/report'',
       \<lparr>rq_method = ''get'', rq_url = ''http://files.example.org/data/report'',
        rq_headers = [], rq_params = [], rq_stream = True, rq_timeout = None\<rparr>])"
    by code_simp
  have g: "get_result_from_url example_world ''http://files.example.org/data/report'' True [] =
     (Inr (\<lparr>status_code = 200,
            rs_headers = [(''Content-Type'', ''text/plain''), (''Content-Length'', ''3'')],
            content = ''abc''\<rparr>,
           [(''checksum'', ''ba7816bf8f01cfea414140de5dae2223b00361a396177a9cb410ff61f20015ad''),
            (''checksumType'', ''sha256'')]),
      [probe_request example_world ''head'' ''http://files.example.org/data/report'',
       probe_request example_world ''options'' ''http://files.example.org/data/report'',
       \<lparr>rq_method = ''get'', rq_url = ''http://files.example.org/data/report'',
        rq_headers = [], rq_params = [], rq_stream = True, rq_timeout = None\<rparr>])"
  proof -
    let ?resp = "\<lparr>status_code = 200,
            rs_headers = [(''Content-Type'', ''text/plain''), (''Content-Length'', ''3'')],
            content = ''abc''\<rparr>"
    have pos: "0 < requests_chunk_size example_world"
      by (simp add: example_chunk)
    have answered:
      "http example_world (probe_request example_world ''head'' ''http://files.example.org/data/report'')
         = Inr ?resp \<and>
       http example_world (probe_request example_world ''options'' ''http://files.example.org/data/report'')
         = Inr ?resp \<and>
       http example_world \<lparr>rq_method = ''get'', rq_url = ''http://files.example.org/data/report'',
         rq_headers = [], rq_params = [], rq_stream = True, rq_timeout = None\<rparr> = Inr ?resp \<and>
       \<not> (400 \<le> status_code ?resp \<and> status_code ?resp < 600)"
      using example_report_head example_report_options example_report_get by simp
    from checksum_always_full_get
           [OF pos refl refl, THEN conjunct2, THEN conjunct1, rule_format, OF answered, of "[]"]
    show ?thesis
      by (simp add: digest)
  qed
  from g chunks c show ?thesis
    by blast
qed

lemma check_url_details_no_headers:
  assumes "is_safe_url w u"
    and "get_result_from_url w u with_checksum log = (Inr (result, extra), log')"
    and "status_code result = 200"
    and "\<not> truthy (header_get (rs_headers result) ''Content-Type'')"
    and "\<not> truthy (header_get (rs_headers result) ''Content-Length'')"
    and "\<not> truthy (header_get (rs_headers result) ''Content-Range'')"
  shows "check_url_details w u with_checksum log = (Inr (False, []), log')"
  using assms by (simp add: check_url_details_def Let_def)

text \<open>
  Claim C10. A response of status 200 with no content type, no content length and no
  content range gives \<^verbatim>\<open>(False, {})\<close>; and whenever \<^verbatim>\<open>check_url_details\<close> returns
  \<^verbatim>\<open>(True, details)\<close>, the response it read had status 200 and one of \<^verbatim>\<open>contentType\<close>
  and \<^verbatim>\<open>contentLength\<close> in the details is not empty.
\<close>

theorem valid_needs_type_or_length:
  "(is_safe_url w u \<and>
    get_result_from_url w u with_checksum log = (Inr (result, extra), log') \<and>
    status_code result = 200 \<and>
    \<not> truthy (header_get (rs_headers result) ''Content-Type'') \<and>
    \<not> truthy (header_get (rs_headers result) ''Content-Length'') \<and>
    \<not> truthy (header_get (rs_headers result) ''Content-Range'') \<longrightarrow>
      check_url_details w u with_checksum log = (Inr (False, []), log'))
   \<and> (check_url_details w u with_checksum log = (Inr (True, details), log') \<longrightarrow>
        (\<exists>res ex. get_result_from_url w u with_checksum log = (Inr (res, ex), log') \<and>
                  status_code res = 200) \<and>
        (truthy (map_of details ''contentType'') \<or> truthy (map_of details ''contentLength'')))"
proof (intro conjI impI)
  assume "is_safe_url w u \<and>
    get_result_from_url w u with_checksum log = (Inr (result, extra), log') \<and>
    status_code result = 200 \<and>
    \<not> truthy (header_get (rs_headers result) ''Content-Type'') \<and>
    \<not> truthy (header_get (rs_headers result) ''Content-Length'') \<and>
    \<not> truthy (header_get (rs_headers result) ''Content-Range'')"
  then show "check_url_details w u with_checksum log = (Inr (False, []), log')"
    by (simp add: check_url_details_no_headers)
next
  assume v: "check_url_details w u with_checksum log = (Inr (True, details), log')"
  from check_url_details_valid [OF v]
  show "\<exists>res ex. get_result_from_url w u with_checksum log = (Inr (res, ex), log') \<and>
                  status_code res = 200"
    by blast
  from check_url_details_valid [OF v]
  show "truthy (map_of details ''contentType'') \<or> truthy (map_of details ''contentLength'')"
    by blast
qed

theorem valid_needs_type_or_length_witness:
  "is_safe_url example_world ''http://files.example.org/bare''
   \<and> get_result_from_url example_world ''http://files.example.org/bare'' False [] =
       (Inr (\<lparr>status_code = 200, rs_headers = [], content = ''abc''\<rparr>, []),
        [probe_request example_world ''head'' ''http://files.example.org/bare'',
         probe_request example_world ''options'' ''http://files.example.org/bare'',
         \<lparr>rq_method = ''get'', rq_url = ''http://files.example.org/bare'', rq_headers = [],
          rq_params = [], rq_stream = True, rq_timeout = Some 9\<rparr>])
   \<and> check_url_details example_world ''http://files.example.org/bare'' False [] =
       (Inr (False, []),
        [probe_request example_world ''head'' ''http://files.example.org/bare'',
         probe_request example_world ''options'' ''http://files.example.org/bare'',
         \<lparr>rq_method = ''get'', rq_url = ''http://files.example.org/bare'', rq_headers = [],
          rq_params = [], rq_stream = True, rq_timeout = Some 9\<rparr>])
   \<and> check_url_details example_world ''http://files.example.org/data/report'' False [] =
       (Inr (True, [(''contentLength'', ''3''), (''contentType'', ''text/plain'')]),
        [probe_request example_world ''head'' ''http://files.example.org/data/report''])
   \<and> truthy (map_of [(''contentLength'', ''3''), (''contentType'', ''text/plain'')] ''contentType'')"
proof -
  have safe: "is_safe_url example_world ''http://files.example.org/bare''"
    by code_simp
  have g: "get_result_from_url example_world ''http://files.example.org/bare'' False [] =
       (Inr (\<lparr>status_code = 200, rs_headers = [], content = ''abc''\<rparr>, []),
        [probe_request example_world ''head'' ''http://files.example.org/bare'',
         probe_request example_world ''options'' ''http://files.example.org/bare'',
         \<lparr>rq_method = ''get'', rq_url = ''http://files.example.org/bare'', rq_headers = [],
          rq_params = [], rq_stream = True, rq_timeout = Some 9\<rparr>])"
    by code_simp
  have v: "check_url_details example_world ''http://files.example.org/data/report'' False [] =
       (Inr (True, [(''contentLength'', ''3''), (''contentType'', ''text/plain'')]),
        [probe_request example_world ''head'' ''http://files.example.org/data/report''])"
    by code_simp
  have nb: "check_url_details example_world ''http://files.example.org/bare'' False [] =
       (Inr (False, []),
        [probe_request example_world ''head'' ''http://files.example.org/bare'',
         probe_request example_world ''options'' ''http://files.example.org/bare'',
         \<lparr>rq_method = ''get'', rq_url = ''http://files.example.org/bare'', rq_headers = [],
          rq_params = [], rq_stream = True, rq_timeout = Some 9\<rparr>])"
    using valid_needs_type_or_length [THEN conjunct1, rule_format, OF conjI, OF safe conjI, OF g]
    by (simp add: header_get_def)
  have t: "truthy (map_of [(''contentLength'', ''3''), (''contentType'', ''text/plain'')] ''contentType'')"
    using valid_needs_type_or_length [THEN conjunct2, rule_format, OF v]
    by simp
  show ?thesis
    by (intro conjI) (rule safe g nb v t)+
qed

text \<open>
  Claim C9. For an unsafe URL \<^verbatim>\<open>check_url_details\<close> returns \<^verbatim>\<open>(False, {})\<close> and sends
  nothing (the log is unchanged); a transport failure of a safe URL gives the same
  \<^verbatim>\<open>(False, {})\<close>. \<^verbatim>\<open>fileinfo\<close> reports both as the entry \<^verbatim>\<open>{"index": 0, "valid": false}\<close>
  in a response of status 200, and for the unsafe URL leaves the state as it was.
\<close>

theorem unsafe_url_reported_invalid:
  "(\<not> is_safe_url w u \<longrightarrow>
      check_url_details w u with_checksum log = (Inr (False, []), log))
   \<and> (is_safe_url w u \<and>
       get_result_from_url w u with_checksum log = (Inl (RequestException m), log') \<longrightarrow>
        check_url_details w u with_checksum log = (Inr (False, []), log'))
   \<and> (\<not> truthy (map_of (get_request_data r) ''did'') \<and>
       get_download_url w (map_of (get_request_data r) ''url'') = Inr u \<and>
       \<not> is_safe_url w u \<longrightarrow>
        fileinfo w r st =
          (Inr \<lparr>status = 200, out_headers = json_headers, out_content_type = None,
                out_body = Dumps (JArr [JObj [(''index'', JNum 0), (''valid'', JBool False)]])\<rparr>,
           st))
   \<and> (\<not> truthy (map_of (get_request_data r) ''did'') \<and>
       get_download_url w (map_of (get_request_data r) ''url'') = Inr u \<and>
       is_safe_url w u \<and>
       http w (probe_request w ''head'' u) = Inl (RequestException m) \<longrightarrow>
        fst (fileinfo w r st) =
          Inr \<lparr>status = 200, out_headers = json_headers, out_content_type = None,
               out_body = Dumps (JArr [JObj [(''index'', JNum 0), (''valid'', JBool False)]])\<rparr>)"
proof (intro conjI impI)
  assume "\<not> is_safe_url w u"
  then show "check_url_details w u with_checksum log = (Inr (False, []), log)"
    by (rule check_url_details_unsafe)
next
  assume "is_safe_url w u \<and>
       get_result_from_url w u with_checksum log = (Inl (RequestException m), log')"
  then show "check_url_details w u with_checksum log = (Inr (False, []), log')"
    by (simp add: check_url_details_transport)
next
  assume "\<not> truthy (map_of (get_request_data r) ''did'') \<and>
       get_download_url w (map_of (get_request_data r) ''url'') = Inr u \<and>
       \<not> is_safe_url w u"
  then show "fileinfo w r st =
          (Inr \<lparr>status = 200, out_headers = json_headers, out_content_type = None,
                out_body = Dumps (JArr [JObj [(''index'', JNum 0), (''valid'', JBool False)]])\<rparr>,
           st)"
    by (simp add: fileinfo_def Let_def check_url_details_unsafe dict_update_def)
next
  assume a: "\<not> truthy (map_of (get_request_data r) ''did'') \<and>
       get_download_url w (map_of (get_request_data r) ''url'') = Inr u \<and>
       is_safe_url w u \<and>
       http w (probe_request w ''head'' u) = Inl (RequestException m)"
  then have "check_url_details w u (truthy (map_of (get_request_data r) ''checksum'')) (sent st)
      = (Inr (False, []), sent st @ [probe_request w ''head'' u])"
    by (simp add: check_url_details_transport get_result_from_url_head_fails)
  with a show "fst (fileinfo w r st) =
          Inr \<lparr>status = 200, out_headers = json_headers, out_content_type = None,
               out_body = Dumps (JArr [JObj [(''index'', JNum 0), (''valid'', JBool False)]])\<rparr>"
    by (simp add: fileinfo_def Let_def dict_update_def)
qed

theorem unsafe_url_reported_invalid_witness:
  "\<not> is_safe_url example_world ''http://127.0.0.1/x''
   \<and> check_url_details example_world ''http://127.0.0.1/x'' False [] = (Inr (False, []), [])
   \<and> is_safe_url example_world ''http://files.example.org/missing''
   \<and> get_result_from_url example_world ''http://files.example.org/missing'' False [] =
       (Inl (RequestException ''ConnectionError''),
        [probe_request example_world ''head'' ''http://files.example.org/missing''])
   \<and> check_url_details example_world ''http://files.example.org/missing'' False [] =
       (Inr (False, []), [probe_request example_world ''head'' ''http://files.example.org/missing''])
   \<and> fileinfo example_world
         \<lparr>args = [], json_body = [(''url'', ''http://127.0.0.1/x'')], in_headers = []\<rparr>
         \<lparr>nonces = Map.empty, sent = []\<rparr> =
       (Inr \<lparr>status = 200, out_headers = json_headers, out_content_type = None,
             out_body = Dumps (JArr [JObj [(''index'', JNum 0), (''valid'', JBool False)]])\<rparr>,
        \<lparr>nonces = Map.empty, sent = []\<rparr>)
   \<and> fst (fileinfo example_world
         \<lparr>args = [], json_body = [(''url'', ''http://files.example.org/missing'')], in_headers = []\<rparr>
         \<lparr>nonces = Map.empty, sent = []\<rparr>) =
       Inr \<lparr>status = 200, out_headers = json_headers, out_content_type = None,
            out_body = Dumps (JArr [JObj [(''index'', JNum 0), (''valid'', JBool False)]])\<rparr>"
proof -
  have unsafe: "\<not> is_safe_url example_world ''http://127.0.0.1/x''"
    by code_simp
  have safe: "is_safe_url example_world ''http://files.example.org/missing''"
    by code_simp
  have hd: "http example_world (probe_request example_world ''head'' ''http://files.example.org/missing'')
      = Inl (RequestException ''ConnectionError'')"
    by code_simp
  have g: "get_result_from_url example_world ''http://files.example.org/missing'' False [] =
       (Inl (RequestException ''ConnectionError''),
        [probe_request example_world ''head'' ''http://files.example.org/missing''])"
    using get_result_from_url_head_fails [OF hd, of False "[]"] by simp
  have d: "\<And>v. get_download_url example_world (Some v) = Inr v"
    by (simp add: example_world_def)
  note t = unsafe_url_reported_invalid
  have c1: "check_url_details example_world ''http://127.0.0.1/x'' False [] = (Inr (False, []), [])"
    using t [THEN conjunct1, rule_format, OF unsafe] .
  have c2: "check_url_details example_world ''http://files.example.org/missing'' False [] =
       (Inr (False, []), [probe_request example_world ''head'' ''http://files.example.org/missing''])"
    using t [THEN conjunct2, THEN conjunct1, rule_format, OF conjI, OF safe g] .
  have f1: "fileinfo example_world
         \<lparr>args = [], json_body = [(''url'', ''http://127.0.0.1/x'')], in_headers = []\<rparr>
         \<lparr>nonces = Map.empty, sent = []\<rparr> =
       (Inr \<lparr>status = 200, out_headers = json_headers, out_content_type = None,
             out_body = Dumps (JArr [JObj [(''index'', JNum 0), (''valid'', JBool False)]])\<rparr>,
        \<lparr>nonces = Map.empty, sent = []\<rparr>)"
    using t [THEN conjunct2, THEN conjunct2, THEN conjunct1, rule_format,
             of "\<lparr>args = [], json_body = [(''url'', ''http://127.0.0.1/x'')], in_headers = []\<rparr>"
                example_world "''http://127.0.0.1/x''"] unsafe
    by (simp add: get_request_data_def d)
  have f2: "fst (fileinfo example_world
         \<lparr>args = [], json_body = [(''url'', ''http://files.example.org/missing'')], in_headers = []\<rparr>
         \<lparr>nonces = Map.empty, sent = []\<rparr>) =
       Inr \<lparr>status = 200, out_headers = json_headers, out_content_type = None,
            out_body = Dumps (JArr [JObj [(''index'', JNum 0), (''valid'', JBool False)]])\<rparr>"
    using t [THEN conjunct2, THEN conjunct2, THEN conjunct2, rule_format,
             of "\<lparr>args = [], json_body = [(''url'', ''http://files.example.org/missing'')], in_headers = []\<rparr>"
                example_world "''http://files.example.org/missing''" "''ConnectionError''"] safe hd
    by (simp add: get_request_data_def d)
  show ?thesis
    by (intro conjI) (rule unsafe safe g c1 c2 f1 f2)+
qed

section \<open>Properties of the download gateway\<close>



lemma build_download_response_unsafe:
  "\<not> is_safe_url w u \<Longrightarrow>
   build_download_response w r u download_url content_type log =
     (Inl (ValueError (''Unsafe url '' @ u)), log)"
  by (simp add: build_download_response_def)

text \<open>
  Claim C4. With a URL that \<^verbatim>\<open>is_safe_url\<close> rejects, \<^verbatim>\<open>build_download_response\<close> raises
  (\<^verbatim>\<open>ValueError\<close>, re-raised by its handler) and has sent nothing: the log of requests is
  unchanged and there is no response, so no streamed body. \<^verbatim>\<open>computeResult\<close>, which calls
  it inside \<^verbatim>\<open>try\<close>, answers with \<^verbatim>\<open>service_unavailable\<close>: status 503 and the error
  envelope as body (the \<^verbatim>\<open>except\<close> clause of \<^verbatim>\<open>download\<close> is the same).
\<close>

theorem unsafe_url_never_fetched:
  "(\<not> is_safe_url w u \<longrightarrow>
      build_download_response w r u download_url content_type log =
        (Inl (ValueError (''Unsafe url '' @ u)), log))
   \<and> (prepare_url w (get_compute_result_endpoint w)
         [(''index'', map_of (get_request_data r) ''index''),
          (''consumerAddress'', map_of (get_request_data r) ''consumerAddress''),
          (''jobId'', map_of (get_request_data r) ''jobId''),
          (''consumerSignature'', map_of (get_request_data r) ''signature''),
          (''providerSignature'',
             Some (sign_message w (fmt (map_of (get_request_data r) ''jobId'')
                                   @ fmt (map_of (get_request_data r) ''index'')
                                   @ fmt (map_of (get_request_data r) ''consumerAddress''))))]
         = Inr u \<and>
       \<not> is_safe_url w u \<longrightarrow>
        fst (computeResult w r st) =
          Inr (service_unavailable (ValueError (''Unsafe url '' @ u))
                 [(''jobId'', map_of (get_request_data r) ''jobId''),
                  (''index'', map_of (get_request_data r) ''index''),
                  (''consumerAddress'', map_of (get_request_data r) ''consumerAddress'')]) \<and>
        sent (snd (computeResult w r st)) = sent st)
   \<and> status (service_unavailable e ctx) = 503
   \<and> out_body (service_unavailable e ctx) =
        Dumps (JObj [(''error'', JStr (str_of_exn e)),
                     (''context'', JObj (map (\<lambda>(k, v). (k, json_of_opt v)) ctx))])"
  by (simp add: build_download_response_unsafe computeResult_def Let_def service_unavailable_def)


text \<open>
  Claim C7. Outside a range request, let \<open>filename\<close> be the derived file name (the
  filename parameter of the upstream \<^verbatim>\<open>Content-Disposition\<close> if there is one, else the
  last segment of the URL) and \<open>known\<close> the content type known so far (the upstream
  \<^verbatim>\<open>Content-Type\<close> if there is one, else the declared type). If the file name has no
  extension and a type is known, the name sent is the file name followed by the
  extension \<^verbatim>\<open>mimetypes.guess_extension\<close> gives for the type (nothing if it gives none),
  and the type is kept. If the file name has an extension and no type is known, the
  content type is what \<^verbatim>\<open>mimetypes.guess_type\<close> gives for the file name, and the name is
  kept. (With the tables of the library, \<^verbatim>\<open>text/plain\<close> gives \<^verbatim>\<open>.txt\<close> and
  \<^verbatim>\<open>report.csv\<close> gives \<^verbatim>\<open>text/csv\<close>: the example after the theorem runs both.)
\<close>

theorem filename_content_type_reconciled:
  assumes "is_safe_url w u"
    and "\<not> request_range w r"
    and "http w \<lparr>rq_method = ''get'', rq_url = download_url, rq_headers = [],
                  rq_params = [], rq_stream = True, rq_timeout = Some 3\<rparr> = Inr resp"
    and "cd = header_get (rs_headers resp) ''content-disposition''"
    and "cf = (if truthy cd then map_of (parse_header_params w (or_empty cd)) ''filename''
               else None)"
    and "filename = (if truthy cf then or_empty cf else last (split (CHR ''/'') u))"
    and "known = (if truthy (header_get (rs_headers resp) ''content-type'')
                  then header_get (rs_headers resp) ''content-type'' else content_type)"
  shows "(splitext_ext filename = [] \<and> truthy known \<longrightarrow>
            fst (build_download_response w r u download_url content_type log) =
              Inr \<lparr>status = status_code resp,
                   out_headers =
                     [(''Content-Disposition'',
                         Some (''attachment;filename='' @ filename
                                 @ or_empty (guess_extension w (or_empty known)))),
                      (''Access-Control-Expose-Headers'', Some ''Content-Disposition''),
                      (''Connection'', Some ''close'')],
                   out_content_type = known,
                   out_body = Stream (generate resp)\<rparr>)
         \<and> (splitext_ext filename \<noteq> [] \<and> \<not> truthy known \<longrightarrow>
            fst (build_download_response w r u download_url content_type log) =
              Inr \<lparr>status = status_code resp,
                   out_headers =
                     [(''Content-Disposition'', Some (''attachment;filename='' @ filename)),
                      (''Access-Control-Expose-Headers'', Some ''Content-Disposition''),
                      (''Connection'', Some ''close'')],
                   out_content_type = guess_type w filename,
                   out_body = Stream (generate resp)\<rparr>)"
  using assms
  by (simp add: build_download_response_def send_def Let_def truthy_iff)

theorem unsafe_url_never_fetched_witness:
  "\<not> is_safe_url example_world ''http://127.0.0.1/x''
   \<and> build_download_response example_world \<lparr>args = [], json_body = [], in_headers = []\<rparr>
         ''http://127.0.0.1/x'' ''http://127.0.0.1/x'' None [] =
       (Inl (ValueError ''Unsafe url http://127.0.0.1/x''), [])
   \<and> \<not> is_safe_url (example_world\<lparr>operator_service_url := ''http://intranet.example.org''\<rparr>)
         ''http://intranet.example.org/api/v1/operator/getResult''
   \<and> fst (computeResult (example_world\<lparr>operator_service_url := ''http://intranet.example.org''\<rparr>)
         \<lparr>args = [(''jobId'', ''7''), (''index'', ''0''), (''consumerAddress'', ''0xConsumer'')],
          json_body = [], in_headers = []\<rparr>
         \<lparr>nonces = Map.empty, sent = []\<rparr>) =
       Inr (service_unavailable
              (ValueError ''Unsafe url http://intranet.example.org/api/v1/operator/getResult'')
              [(''jobId'', Some ''7''), (''index'', Some ''0''),
               (''consumerAddress'', Some ''0xConsumer'')])
   \<and> sent (snd (computeResult (example_world\<lparr>operator_service_url := ''http://intranet.example.org''\<rparr>)
         \<lparr>args = [(''jobId'', ''7''), (''index'', ''0''), (''consumerAddress'', ''0xConsumer'')],
          json_body = [], in_headers = []\<rparr>
         \<lparr>nonces = Map.empty, sent = []\<rparr>)) = []
   \<and> status (service_unavailable
              (ValueError ''Unsafe url http://intranet.example.org/api/v1/operator/getResult'')
              [(''jobId'', Some ''7''), (''index'', Some ''0''),
               (''consumerAddress'', Some ''0xConsumer'')]) = 503"
proof -
  let ?w = "example_world\<lparr>operator_service_url := ''http://intranet.example.org''\<rparr>"
  let ?r = "\<lparr>args = [(''jobId'', ''7''), (''index'', ''0''), (''consumerAddress'', ''0xConsumer'')],
          json_body = [], in_headers = []\<rparr>"
  have u1: "\<not> is_safe_url example_world ''http://127.0.0.1/x''"
    by code_simp
  have u2: "\<not> is_safe_url ?w ''http://intranet.example.org/api/v1/operator/getResult''"
    by code_simp
  have ep: "get_compute_result_endpoint ?w = ''http://intranet.example.org/api/v1/operator/getResult''"
    by (simp add: get_compute_result_endpoint_def)
  have pu: "\<And>v ps. prepare_url example_world v ps = Inr v"
    by (simp add: example_world_def)
  have data: "get_request_data ?r =
      [(''jobId'', ''7''), (''index'', ''0''), (''consumerAddress'', ''0xConsumer'')]"
    by (simp add: get_request_data_def)
  note t = unsafe_url_never_fetched
  have b: "build_download_response example_world \<lparr>args = [], json_body = [], in_headers = []\<rparr>
         ''http://127.0.0.1/x'' ''http://127.0.0.1/x'' None [] =
       (Inl (ValueError ''Unsafe url http://127.0.0.1/x''), [])"
    using t [THEN conjunct1, rule_format, OF u1] by simp
  have c: "fst (computeResult ?w ?r \<lparr>nonces = Map.empty, sent = []\<rparr>) =
       Inr (service_unavailable
              (ValueError ''Unsafe url http://intranet.example.org/api/v1/operator/getResult'')
              [(''jobId'', Some ''7''), (''index'', Some ''0''),
               (''consumerAddress'', Some ''0xConsumer'')])
      \<and> sent (snd (computeResult ?w ?r \<lparr>nonces = Map.empty, sent = []\<rparr>)) = []"
    using t [THEN conjunct2, THEN conjunct1, rule_format,
             of ?w ?r "''http://intranet.example.org/api/v1/operator/getResult''"
                "\<lparr>nonces = Map.empty, sent = []\<rparr>"] u2
    by (simp add: ep pu data)
  have s: "status (service_unavailable
              (ValueError ''Unsafe url http://intranet.example.org/api/v1/operator/getResult'')
              [(''jobId'', Some ''7''), (''index'', Some ''0''),
               (''consumerAddress'', Some ''0xConsumer'')]) = 503"
    using t [THEN conjunct2, THEN conjunct2, THEN conjunct1] .
  from u1 b u2 c s show ?thesis
    by blast
qed


theorem filename_content_type_reconciled_witness:
  "fst (build_download_response example_world \<lparr>args = [], json_body = [], in_headers = []\<rparr>
          ''http://files.example.org/data/report'' ''http://files.example.org/data/report''
          None []) =
     Inr \<lparr>status = 200,
          out_headers = [(''Content-Disposition'', Some ''attachment;filename=report.txt''),
                         (''Access-Control-Expose-Headers'', Some ''Content-Disposition''),
                         (''Connection'', Some ''close'')],
          out_content_type = Some ''text/plain'',
          out_body = Stream [''abc'']\<rparr>
   \<and> fst (build_download_response example_world \<lparr>args = [], json_body = [], in_headers = []\<rparr>
          ''http://files.example.org/data/report.csv''
          ''http://files.example.org/data/report.csv'' None []) =
     Inr \<lparr>status = 200,
          out_headers = [(''Content-Disposition'', Some ''attachment;filename=report.csv''),
                         (''Access-Control-Expose-Headers'', Some ''Content-Disposition''),
                         (''Connection'', Some ''close'')],
          out_content_type = Some ''text/csv'',
          out_body = Stream [''a,b'']\<rparr>"
proof -
  let ?r = "\<lparr>args = [], json_body = [], in_headers = []\<rparr>"
  let ?u1 = "''http://files.example.org/data/report''"
  let ?u2 = "''http://files.example.org/data/report.csv''"
  let ?resp1 = "\<lparr>status_code = 200,
                 rs_headers = [(''Content-Type'', ''text/plain''), (''Content-Length'', ''3'')],
                 content = ''abc''\<rparr>"
  let ?resp2 = "\<lparr>status_code = 200, rs_headers = [(''Content-Length'', ''3'')],
                 content = ''a,b''\<rparr>"
  have safe1: "is_safe_url example_world ?u1" by code_simp
  have safe2: "is_safe_url example_world ?u2" by code_simp
  have nr: "\<not> request_range example_world ?r" by code_simp
  have get1: "http example_world \<lparr>rq_method = ''get'', rq_url = ?u1, rq_headers = [],
                  rq_params = [], rq_stream = True, rq_timeout = Some 3\<rparr> = Inr ?resp1"
    by code_simp
  have get2: "http example_world \<lparr>rq_method = ''get'', rq_url = ?u2, rq_headers = [],
                  rq_params = [], rq_stream = True, rq_timeout = Some 3\<rparr> = Inr ?resp2"
    by code_simp
  have cd1: "None = header_get (rs_headers ?resp1) ''content-disposition''" by code_simp
  have cd2: "None = header_get (rs_headers ?resp2) ''content-disposition''" by code_simp
  have cf1: "None = (if truthy None
                      then map_of (parse_header_params example_world (or_empty None)) ''filename''
                      else None)"
    by simp
  have fn1: "''report'' = (if truthy None then or_empty None else last (split (CHR ''/'') ?u1))"
    by code_simp
  have fn2: "''report.csv'' = (if truthy None then or_empty None else last (split (CHR ''/'') ?u2))"
    by code_simp
  have k1: "Some ''text/plain'' =
      (if truthy (header_get (rs_headers ?resp1) ''content-type'')
       then header_get (rs_headers ?resp1) ''content-type'' else None)"
    by code_simp
  have k2: "None =
      (if truthy (header_get (rs_headers ?resp2) ''content-type'')
       then header_get (rs_headers ?resp2) ''content-type'' else None)"
    by code_simp
  have e1: "splitext_ext ''report'' = []" by code_simp
  have e2: "splitext_ext ''report.csv'' = ''.csv''" by code_simp
  have gx: "guess_extension example_world ''text/plain'' = Some ''.txt''"
    by (simp add: example_world_def)
  have gt: "guess_type example_world ''report.csv'' = Some ''text/csv''"
    by (simp add: example_world_def)
  have g1: "generate ?resp1 = [''abc'']" by code_simp
  have g2: "generate ?resp2 = [''a,b'']" by code_simp
  have a: "fst (build_download_response example_world ?r ?u1 ?u1 None []) =
     Inr \<lparr>status = 200,
          out_headers = [(''Content-Disposition'', Some ''attachment;filename=report.txt''),
                         (''Access-Control-Expose-Headers'', Some ''Content-Disposition''),
                         (''Connection'', Some ''close'')],
          out_content_type = Some ''text/plain'',
          out_body = Stream [''abc'']\<rparr>"
    using filename_content_type_reconciled [OF safe1 nr get1 cd1 cf1 fn1 k1, of "[]"] e1 gx g1
    by simp
  have b: "fst (build_download_response example_world ?r ?u2 ?u2 None []) =
     Inr \<lparr>status = 200,
          out_headers = [(''Content-Disposition'', Some ''attachment;filename=report.csv''),
                         (''Access-Control-Expose-Headers'', Some ''Content-Disposition''),
                         (''Connection'', Some ''close'')],
          out_content_type = Some ''text/csv'',
          out_body = Stream [''a,b'']\<rparr>"
    using filename_content_type_reconciled [OF safe2 nr get2 cd2 cf1 fn2 k2, of "[]"] e2 gt g2
    by simp
  from a b show ?thesis by blast
qed

section \<open>Properties of the compute status and of the nonce\<close>

lemma map_of_pop_keys:
  "k \<in> set keys_to_filter \<Longrightarrow> map_of (fold AList.delete keys_to_filter d) k = None"
  by (auto simp: keys_to_filter_def delete_conv')

lemma pop_keys_filtered:
  "pop_keys j = Inr j' \<Longrightarrow> \<not> has_filtered_key j'"
  by (cases j) (auto simp: list_ex_iff map_of_pop_keys)

lemma filter_jobs_filtered:
  "filter_jobs js = Inr out \<Longrightarrow> list_all (\<lambda>j. \<not> has_filtered_key j) out"
proof (induction js arbitrary: out)
  case Nil
  then show ?case by simp
next
  case (Cons j js)
  then show ?case
    by (auto split: sum.splits dest: pop_keys_filtered)
qed

lemma filter_jobs_objects:
  "filter_jobs (map JObj ds) = Inr (map (\<lambda>d. JObj (fold AList.delete keys_to_filter d)) ds)"
  by (induction ds) simp_all

lemma status_response_unsigned:
  "redacted (out_body (status_response w data resp False)) \<or>
   (\<exists>e. status_response w data resp False = service_unavailable e (context_of data))"
proof (cases "json_loads w (content resp)")
  case None
  then show ?thesis
    by (auto simp: status_response_def)
next
  case (Some loaded)
  show ?thesis
  proof (cases "filter_jobs (case loaded of JArr xs \<Rightarrow> xs | j \<Rightarrow> [j])")
    case (Inl e)
    with Some show ?thesis
      by (auto simp: status_response_def)
  next
    case (Inr filtered)
    from filter_jobs_filtered [OF Inr] Some Inr show ?thesis
      by (simp add: status_response_def)
  qed
qed

text \<open>
  Claim C2. For a \<^verbatim>\<open>GET /compute\<close> request whose signature is absent (or empty) or whose
  verification raises, the response of \<^verbatim>\<open>computeStatus\<close> is either the dump of a list of
  job entries none of which has the key \<^verbatim>\<open>resultsUrl\<close>, \<^verbatim>\<open>algorithmLogUrl\<close> or
  \<^verbatim>\<open>resultsDid\<close>, or the error envelope of \<^verbatim>\<open>service_unavailable\<close>, built from the
  exception and the request data; it is never the upstream content as received. When the
  upstream content is a list of job objects and the signature is absent or invalid, the
  response has the upstream status and each object with exactly these three keys removed.
  (The keys are those of the job entries; the entries' values are passed on as they are.)
\<close>

theorem unsigned_status_is_filtered:
  assumes "data = get_request_data r"
    and "verdict =
           verify_signature w (map_of data ''consumerAddress'') (map_of data ''signature'')
             (fmt (map_of data ''consumerAddress'') @ fmt (map_of data ''jobId'')
                @ fmt (map_of data ''documentId''))
             (get_nonce (nonces st) (map_of data ''consumerAddress''))"
    and "\<not> truthy (map_of data ''signature'') \<or> verdict \<noteq> None"
  shows "(redacted (out_body (fst (computeStatus w r st))) \<or>
          (\<exists>e. fst (computeStatus w r st) = service_unavailable e (context_of data)))
         \<and> ((\<not> truthy (map_of data ''signature'') \<or>
              (\<exists>m. verdict = Some (InvalidSignatureError m))) \<and>
             http w \<lparr>rq_method = ''get'', rq_url = get_compute_endpoint w,
                      rq_headers = standard_headers,
                      rq_params = process_compute_request w data,
                      rq_stream = False, rq_timeout = None\<rparr> = Inr up \<and>
             json_loads w (content up) = Some (JArr (map JObj ds)) \<longrightarrow>
               fst (computeStatus w r st) =
                 \<lparr>status = status_code up, out_headers = standard_headers,
                  out_content_type = None,
                  out_body = Dumps (JArr (map (\<lambda>d. JObj (fold AList.delete keys_to_filter d)) ds))\<rparr>)"
proof (intro conjI impI)
  let ?rq = "\<lparr>rq_method = ''get'', rq_url = get_compute_endpoint w,
              rq_headers = standard_headers, rq_params = process_compute_request w data,
              rq_stream = False, rq_timeout = None\<rparr>"
  have vs: "verify_signature w (map_of data ''consumerAddress'') (map_of data ''signature'')
             (fmt (map_of data ''consumerAddress'') @ fmt (map_of data ''jobId'')
                @ fmt (map_of data ''documentId''))
             (get_nonce (nonces st) (map_of data ''consumerAddress'')) = verdict"
    using assms(2) by simp
  have d: "get_request_data r = data"
    using assms(1) by simp
  show "redacted (out_body (fst (computeStatus w r st))) \<or>
          (\<exists>e. fst (computeStatus w r st) = service_unavailable e (context_of data))"
  proof (cases "http w ?rq")
    case (Inl e)
    then show ?thesis
      by (auto simp: computeStatus_def send_def Let_def d)
  next
    case (Inr resp)
    note u = status_response_unsigned [of w data resp]
    show ?thesis
    proof (cases "truthy (map_of data ''signature'')")
      case False
      with Inr u show ?thesis
        by (simp add: computeStatus_def send_def Let_def d)
    next
      case True
      with assms(3) obtain e where v: "verdict = Some e"
        by auto
      show ?thesis
      proof (cases "\<exists>m. e = InvalidSignatureError m")
        case True
        with \<open>truthy (map_of data ''signature'')\<close> Inr v u show ?thesis
          by (auto simp: computeStatus_def send_def Let_def d vs)
      next
        case False
        with \<open>truthy (map_of data ''signature'')\<close> Inr v show ?thesis
          by (cases e) (auto simp: computeStatus_def send_def Let_def d vs)
      qed
    qed
  qed
next
  assume a: "(\<not> truthy (map_of data ''signature'') \<or>
              (\<exists>m. verdict = Some (InvalidSignatureError m))) \<and>
             http w \<lparr>rq_method = ''get'', rq_url = get_compute_endpoint w,
                      rq_headers = standard_headers,
                      rq_params = process_compute_request w data,
                      rq_stream = False, rq_timeout = None\<rparr> = Inr up \<and>
             json_loads w (content up) = Some (JArr (map JObj ds))"
  have s: "status_response w data up False =
      \<lparr>status = status_code up, out_headers = standard_headers, out_content_type = None,
       out_body = Dumps (JArr (map (\<lambda>d. JObj (fold AList.delete keys_to_filter d)) ds))\<rparr>"
    using a by (simp add: status_response_def filter_jobs_objects)
  have vs: "verify_signature w (map_of data ''consumerAddress'') (map_of data ''signature'')
             (fmt (map_of data ''consumerAddress'') @ fmt (map_of data ''jobId'')
                @ fmt (map_of data ''documentId''))
             (get_nonce (nonces st) (map_of data ''consumerAddress'')) = verdict"
    using assms(2) by simp
  have d: "get_request_data r = data"
    using assms(1) by simp
  from a s
  show "fst (computeStatus w r st) =
          \<lparr>status = status_code up, out_headers = standard_headers, out_content_type = None,
           out_body = Dumps (JArr (map (\<lambda>d. JObj (fold AList.delete keys_to_filter d)) ds))\<rparr>"
    by (auto simp: computeStatus_def send_def Let_def d vs)
qed

theorem unsigned_status_is_filtered_witness:
  "fst (computeStatus example_world
          \<lparr>args = [(''consumerAddress'', ''0xConsumer''), (''jobId'', ''7'')],
           json_body = [], in_headers = []\<rparr>
          \<lparr>nonces = Map.empty, sent = []\<rparr>) =
     \<lparr>status = 200, out_headers = standard_headers, out_content_type = None,
      out_body = Dumps (JArr [JObj [(''jobId'', JStr ''7''), (''status'', JNum 70)]])\<rparr>
   \<and> fst (computeStatus example_world
          \<lparr>args = [(''consumerAddress'', ''0xConsumer''), (''jobId'', ''7''),
                   (''signature'', ''forged'')],
           json_body = [], in_headers = []\<rparr>
          \<lparr>nonces = Map.empty, sent = []\<rparr>) =
     \<lparr>status = 200, out_headers = standard_headers, out_content_type = None,
      out_body = Dumps (JArr [JObj [(''jobId'', JStr ''7''), (''status'', JNum 70)]])\<rparr>
   \<and> redacted (Dumps (JArr [JObj [(''jobId'', JStr ''7''), (''status'', JNum 70)]]))"
proof -
  let ?d1 = "[(''consumerAddress'', ''0xConsumer''), (''jobId'', ''7'')]"
  let ?d2 = "[(''consumerAddress'', ''0xConsumer''), (''jobId'', ''7''), (''signature'', ''forged'')]"
  let ?r1 = "\<lparr>args = ?d1, json_body = [], in_headers = []\<rparr>"
  let ?r2 = "\<lparr>args = ?d2, json_body = [], in_headers = []\<rparr>"
  let ?st = "\<lparr>nonces = Map.empty, sent = []\<rparr>"
  let ?up = "\<lparr>status_code = 200, rs_headers = [(''Content-Type'', ''application/json'')],
              content = ''JOBS''\<rparr>"
  let ?jobs = "[[(''jobId'', JStr ''7''), (''status'', JNum 70),
                 (''resultsUrl'', JStr ''http://results.example.org/7''),
                 (''algorithmLogUrl'', JStr ''http://results.example.org/7.log''),
                 (''resultsDid'', JStr ''did:op:7'')]]"
  have d1: "?d1 = get_request_data ?r1" by code_simp
  have d2: "?d2 = get_request_data ?r2" by code_simp
  have v1: "Some (InvalidSignatureError ''invalid signature'') =
      verify_signature example_world (map_of ?d1 ''consumerAddress'') (map_of ?d1 ''signature'')
        (fmt (map_of ?d1 ''consumerAddress'') @ fmt (map_of ?d1 ''jobId'')
           @ fmt (map_of ?d1 ''documentId''))
        (get_nonce (nonces ?st) (map_of ?d1 ''consumerAddress''))"
    by (simp add: example_world_def)
  have v2: "Some (InvalidSignatureError ''invalid signature'') =
      verify_signature example_world (map_of ?d2 ''consumerAddress'') (map_of ?d2 ''signature'')
        (fmt (map_of ?d2 ''consumerAddress'') @ fmt (map_of ?d2 ''jobId'')
           @ fmt (map_of ?d2 ''documentId''))
        (get_nonce (nonces ?st) (map_of ?d2 ''consumerAddress''))"
    by (simp add: example_world_def)
  have h1: "\<not> truthy (map_of ?d1 ''signature'') \<or>
            Some (InvalidSignatureError ''invalid signature'') \<noteq> None"
    by simp
  have h2: "\<not> truthy (map_of ?d2 ''signature'') \<or>
            Some (InvalidSignatureError ''invalid signature'') \<noteq> None"
    by simp
  have up1: "http example_world \<lparr>rq_method = ''get'', rq_url = get_compute_endpoint example_world,
                      rq_headers = standard_headers,
                      rq_params = process_compute_request example_world ?d1,
                      rq_stream = False, rq_timeout = None\<rparr> = Inr ?up"
    by code_simp
  have up2: "http example_world \<lparr>rq_method = ''get'', rq_url = get_compute_endpoint example_world,
                      rq_headers = standard_headers,
                      rq_params = process_compute_request example_world ?d2,
                      rq_stream = False, rq_timeout = None\<rparr> = Inr ?up"
    by code_simp
  have js: "json_loads example_world (content ?up) = Some (JArr (map JObj ?jobs))"
    by (simp add: example_world_def)
  have fl: "map (\<lambda>d. JObj (fold AList.delete keys_to_filter d)) ?jobs =
      [JObj [(''jobId'', JStr ''7''), (''status'', JNum 70)]]"
    by code_simp
  have rd: "redacted (Dumps (JArr [JObj [(''jobId'', JStr ''7''), (''status'', JNum 70)]]))"
    by code_simp
  have a: "fst (computeStatus example_world ?r1 ?st) =
     \<lparr>status = 200, out_headers = standard_headers, out_content_type = None,
      out_body = Dumps (JArr [JObj [(''jobId'', JStr ''7''), (''status'', JNum 70)]])\<rparr>"
    using unsigned_status_is_filtered [OF d1 v1 h1, THEN conjunct2, rule_format,
            of ?up ?jobs] up1 js fl
    by simp
  have b: "fst (computeStatus example_world ?r2 ?st) =
     \<lparr>status = 200, out_headers = standard_headers, out_content_type = None,
      out_body = Dumps (JArr [JObj [(''jobId'', JStr ''7''), (''status'', JNum 70)]])\<rparr>"
    using unsigned_status_is_filtered [OF d2 v2 h2, THEN conjunct2, rule_format,
            of ?up ?jobs] up2 js fl
    by simp
  from a b rd show ?thesis
    by blast
qed






end
